theory Spec2Isabelle
  imports Main "HOL-Library.Char_ord" "HOL-Library.List_Lexorder"
begin

section \<open>Python values\<close>

text \<open>
  The engine of \<^verbatim>\<open>services/certificate_engine.py\<close> works on decoded JSON: property
  bags whose values are \<^verbatim>\<open>None\<close>, strings, integers, booleans or lists of these.
  A string is a list of code points below 256; the case mappings and the white space
  test below are Python's on that range.
\<close>

datatype pyval = PNone | PStr string | PInt int | PBool bool | PList "pyval list"

datatype pyerr = AttributeError | TypeError | ValueError string | OverflowError
  | KeyError | Exception string

type_synonym props = "string \<rightharpoonup> pyval"

fun truthy :: "pyval \<Rightarrow> bool" where
  "truthy PNone = False"
| "truthy (PStr s) = (s \<noteq> [])"
| "truthy (PInt n) = (n \<noteq> 0)"
| "truthy (PBool b) = b"
| "truthy (PList xs) = (xs \<noteq> [])"

subsection \<open>Characters and strings\<close>

definition is_digit :: "char \<Rightarrow> bool" where
  "is_digit c = (CHR ''0'' \<le> c \<and> c \<le> CHR ''9'')"

definition is_space :: "char \<Rightarrow> bool" where
  \<comment> \<open>\<^verbatim>\<open>str.isspace\<close>, which is also the class \<^verbatim>\<open>\s\<close> of \<^verbatim>\<open>re\<close>\<close>
  "is_space c = (c \<in> set [CHR 0x09, CHR 0x0A, CHR 0x0B, CHR 0x0C, CHR 0x0D,
     CHR 0x1C, CHR 0x1D, CHR 0x1E, CHR 0x1F, CHR 0x20, CHR 0x85, CHR 0xA0])"

definition lower_char :: "char \<Rightarrow> char" where
  "lower_char c = (let n = (of_char c :: nat) in
     if (65 \<le> n \<and> n \<le> 90) \<or> (192 \<le> n \<and> n \<le> 222 \<and> n \<noteq> 215)
     then char_of (n + 32) else c)"

definition lower :: "string \<Rightarrow> string" where
  "lower s = map lower_char s"

definition upper_char :: "char \<Rightarrow> string" where
  \<comment> \<open>\<^verbatim>\<open>str.upper\<close>; the capitals of code points 181 and 255 lie beyond 255, where the
      model has no character, and these two are left as they are\<close>
  "upper_char c = (let n = (of_char c :: nat) in
     if (97 \<le> n \<and> n \<le> 122) \<or> (224 \<le> n \<and> n \<le> 254 \<and> n \<noteq> 247)
     then [char_of (n - 32)]
     else if n = 223 then ''SS'' else [c])"

definition upper :: "string \<Rightarrow> string" where
  "upper s = concat (map upper_char s)"

definition lstrip :: "string \<Rightarrow> string" where
  "lstrip s = dropWhile is_space s"

definition rstrip :: "string \<Rightarrow> string" where
  "rstrip s = rev (dropWhile is_space (rev s))"

definition strip :: "string \<Rightarrow> string" where
  "strip s = rstrip (lstrip s)"

fun str_contains :: "string \<Rightarrow> string \<Rightarrow> bool" where
  \<comment> \<open>\<^verbatim>\<open>w in s\<close>\<close>
  "str_contains [] w = (w = [])"
| "str_contains (c # cs) w = (take (length w) (c # cs) = w \<or> str_contains cs w)"

fun join :: "string \<Rightarrow> string list \<Rightarrow> string" where
  "join sep [] = []"
| "join sep [x] = x"
| "join sep (x # y # ys) = x @ sep @ join sep (y # ys)"

fun digits_of :: "nat \<Rightarrow> string" where
  "digits_of n = (if n < 10 then [char_of (48 + n)]
     else digits_of (n div 10) @ [char_of (48 + n mod 10)])"

declare digits_of.simps [simp del]

definition str_of_int :: "int \<Rightarrow> string" where
  "str_of_int i = (if i < 0 then CHR ''-'' # digits_of (nat (- i)) else digits_of (nat i))"

definition hex_digit :: "nat \<Rightarrow> char" where
  "hex_digit d = (if d < 10 then char_of (48 + d) else char_of (87 + d))"

definition printable :: "char \<Rightarrow> bool" where
  \<comment> \<open>\<^verbatim>\<open>str.isprintable\<close> on the code points below 256\<close>
  "printable c = (let n = (of_char c :: nat) in
     (32 \<le> n \<and> n < 127) \<or> (161 \<le> n \<and> n \<noteq> 173))"

definition repr_char :: "char \<Rightarrow> char \<Rightarrow> string" where
  "repr_char q c =
     (if c = q \<or> c = CHR 0x5C then [CHR 0x5C, c]
      else if c = CHR 0x09 then [CHR 0x5C, CHR ''t'']
      else if c = CHR 0x0A then [CHR 0x5C, CHR ''n'']
      else if c = CHR 0x0D then [CHR 0x5C, CHR ''r'']
      else if printable c then [c]
      else [CHR 0x5C, CHR ''x'', hex_digit (of_char c div 16), hex_digit (of_char c mod 16)])"

definition repr_str :: "string \<Rightarrow> string" where
  "repr_str s =
     (let q = (if CHR 0x27 \<in> set s \<and> CHR 0x22 \<notin> set s then CHR 0x22 else CHR 0x27)
      in q # concat (map (repr_char q) s) @ [q])"

fun repr :: "pyval \<Rightarrow> string" where
  "repr PNone = ''None''"
| "repr (PStr s) = repr_str s"
| "repr (PInt n) = str_of_int n"
| "repr (PBool b) = (if b then ''True'' else ''False'')"
| "repr (PList xs) = ''['' @ join '', '' (map repr xs) @ '']''"

definition str :: "pyval \<Rightarrow> string" where
  "str v = (case v of PStr s \<Rightarrow> s | _ \<Rightarrow> repr v)"

definition or_else :: "pyval \<Rightarrow> pyval \<Rightarrow> pyval" where
  \<comment> \<open>\<^verbatim>\<open>a or b\<close>\<close>
  "or_else a b = (if truthy a then a else b)"

definition get :: "props \<Rightarrow> string \<Rightarrow> pyval" where
  \<comment> \<open>\<^verbatim>\<open>d.get(k)\<close>\<close>
  "get d k = (case d k of None \<Rightarrow> PNone | Some v \<Rightarrow> v)"

definition get_or :: "props \<Rightarrow> string \<Rightarrow> pyval \<Rightarrow> pyval" where
  \<comment> \<open>\<^verbatim>\<open>d.get(k, default)\<close>\<close>
  "get_or d k dflt = (case d k of None \<Rightarrow> dflt | Some v \<Rightarrow> v)"

section \<open>Value Transformer\<close>

text \<open>
  The reading of a clock and \<^verbatim>\<open>datetime.fromisoformat\<close> belong to Python's library.
  A \<open>datetime\<close> is the record of its calendar fields. What the library answers during
  one call of the engine is an argument \<open>env\<close>: the reading of \<^verbatim>\<open>datetime.now()\<close>,
  the reading of \<^verbatim>\<open>datetime.now(pst)\<close>, and the ISO parser, which gives \<open>None\<close> where
  the library raises. \<^verbatim>\<open>strftime\<close> is written out for the directives the engine uses
  (in the C locale).
\<close>

record datetime =
  year :: nat
  month :: nat
  day :: nat
  hour :: nat
  minute :: nat
  second :: nat

record env =
  now_local :: datetime
  now_pst :: datetime
  fromisoformat :: "string \<Rightarrow> datetime option"

definition month_name :: "nat \<Rightarrow> string" where
  \<comment> \<open>\<^verbatim>\<open>%B\<close>; a datetime's month is between 1 and 12\<close>
  "month_name m = [''January'', ''February'', ''March'', ''April'', ''May'', ''June'',
     ''July'', ''August'', ''September'', ''October'', ''November'', ''December''] ! (m - 1)"

definition pad2 :: "nat \<Rightarrow> string" where
  "pad2 n = (if n < 10 then CHR ''0'' # digits_of n else digits_of n)"

definition hour12 :: "nat \<Rightarrow> nat" where
  \<comment> \<open>\<^verbatim>\<open>%I\<close>\<close>
  "hour12 h = (if h mod 12 = 0 then 12 else h mod 12)"

definition am_pm :: "nat \<Rightarrow> string" where
  \<comment> \<open>\<^verbatim>\<open>%p\<close>\<close>
  "am_pm h = (if h < 12 then ''AM'' else ''PM'')"

fun replace_Z :: "string \<Rightarrow> string" where
  \<comment> \<open>\<^verbatim>\<open>value.replace('Z', '+00:00')\<close>\<close>
  "replace_Z [] = []"
| "replace_Z (c # cs) = (if c = CHR ''Z'' then ''+00:00'' @ replace_Z cs else c # replace_Z cs)"

fun replace_sp0 :: "string \<Rightarrow> string" where
  \<comment> \<open>\<^verbatim>\<open>.replace(" 0", " ")\<close>\<close>
  "replace_sp0 (a # b # cs) =
     (if a = CHR '' '' \<and> b = CHR ''0'' then CHR '' '' # replace_sp0 cs
      else a # replace_sp0 (b # cs))"
| "replace_sp0 cs = cs"

definition strftime_long :: "datetime \<Rightarrow> string" where
  \<comment> \<open>\<^verbatim>\<open>dt.strftime("%B %d, %Y %I:%M %p")\<close>\<close>
  "strftime_long dt = month_name (month dt) @ '' '' @ pad2 (day dt) @ '', '' @
     digits_of (year dt) @ '' '' @ pad2 (hour12 (hour dt)) @ '':'' @ pad2 (minute dt) @
     '' '' @ am_pm (hour dt)"

definition strftime_time :: "datetime \<Rightarrow> string" where
  \<comment> \<open>\<^verbatim>\<open>dt.strftime("%I:%M%p")\<close>\<close>
  "strftime_time dt = pad2 (hour12 (hour dt)) @ '':'' @ pad2 (minute dt) @ am_pm (hour dt)"

definition lstrip0 :: "string \<Rightarrow> string" where
  \<comment> \<open>\<^verbatim>\<open>.lstrip('0')\<close>\<close>
  "lstrip0 s = dropWhile (\<lambda>c. c = CHR ''0'') s"

definition ordinal_suffix :: "nat \<Rightarrow> string" where
  \<comment> \<open>\<^verbatim>\<open>{1: 'st', 2: 'nd', 3: 'rd'}.get(day % 10, 'th')\<close>\<close>
  "ordinal_suffix d = (if d mod 10 = 1 then ''st'' else if d mod 10 = 2 then ''nd''
     else if d mod 10 = 3 then ''rd'' else ''th'')"

fun search_item_number :: "string \<Rightarrow> string option" where
  \<comment> \<open>\<^verbatim>\<open>re.search(r'\[(\d+)\]', s)\<close>: group 1 of the leftmost match\<close>
  "search_item_number [] = None"
| "search_item_number (c # cs) =
     (let ds = takeWhile is_digit cs; r = dropWhile is_digit cs in
      if c = CHR ''['' \<and> ds \<noteq> [] \<and> take 1 r = '']'' then Some ds
      else search_item_number cs)"

definition line_tail :: "string \<Rightarrow> bool" where
  \<comment> \<open>\<^verbatim>\<open>.*$\<close>: no line feed, but for one at the very end\<close>
  "line_tail r = (CHR 0x0A \<notin> set (butlast r))"

definition tail_match :: "string \<Rightarrow> bool" where
  \<comment> \<open>\<^verbatim>\<open>\s*\[\d+\].*$\<close> matches here\<close>
  "tail_match s = (case dropWhile is_space s of
       c # u \<Rightarrow> c = CHR ''['' \<and> takeWhile is_digit u \<noteq> [] \<and>
         (case dropWhile is_digit u of
            e # r \<Rightarrow> e = CHR '']'' \<and> line_tail r
          | [] \<Rightarrow> False)
     | [] \<Rightarrow> False)"

fun sub_tail :: "string \<Rightarrow> string" where
  \<comment> \<open>\<^verbatim>\<open>re.sub(r'\s*\[\d+\].*$', '', s)\<close>: the leftmost match goes, a final line feed stays\<close>
  "sub_tail [] = []"
| "sub_tail (c # cs) =
     (if tail_match (c # cs) then (if last (c # cs) = CHR 0x0A then [CHR 0x0A] else [])
      else c # sub_tail cs)"

definition code_mappings :: "string \<rightharpoonup> string" where
  "code_mappings = map_of [
     (''01'', ''BLINK mesh radio''), (''02'', ''cellular via Alarmnet''),
     (''03'', ''cellular via DSC Integration Bridge''), (''04'', ''analog telephone line''),
     (''05'', ''cellular connection''), (''06'', ''cellular via alarm.com''),
     (''07'', ''internet via Alarmnet''), (''08'', ''internet via DSC''),
     (''09'', ''BLINK mesh radio''), (''13'', ''BLINK mesh radio'')]"

definition wireless :: "string list" where
  "wireless = [''blink'', ''gsm'', ''cellular'']"

definition is_wireless :: "string \<Rightarrow> bool" where
  \<comment> \<open>\<^verbatim>\<open>any(w in path for w in wireless)\<close>\<close>
  "is_wireless path = (\<exists>w \<in> set wireless. str_contains path w)"

definition comm_path_label :: "pyval \<Rightarrow> pyval" where
  "comm_path_label v =
     (if \<not> truthy v then PStr ''''
      else let value_str = lower (strip (str v)) in
        case code_mappings value_str of
          Some l \<Rightarrow> PStr l
        | None \<Rightarrow>
            if str_contains value_str ''blink'' then PStr ''BLINK mesh radio''
            else if str_contains value_str ''gsm'' \<or> str_contains value_str ''cellular''
              then PStr ''cellular connection''
            else if str_contains value_str ''phone'' \<or> str_contains value_str ''telephone''
              then PStr ''analog telephone line''
            else PStr (str v))"

definition comm_path_phrase :: "pyval \<Rightarrow> pyval" where
  "comm_path_phrase v =
     (case v of
        PList (v0 # v1 # vs) \<Rightarrow>
          (let path1 = lower (strip (str (or_else v0 (PStr ''''))));
               path2 = lower (strip (str (or_else v1 (PStr ''''))))
           in if path1 = [] \<and> path2 = [] then PStr ''''
              else if is_wireless path1 \<and> is_wireless path2 then PStr ''Redundant Wireless''
              else if is_wireless path1 \<or> is_wireless path2 then PStr ''GSM Only''
              else PStr '''')
      | _ \<Rightarrow> PStr '''')"

definition timestamp_format :: "datetime \<Rightarrow> string" where
  "timestamp_format dt =
     (let d = day dt;
          suffix = (if 10 \<le> d mod 100 \<and> d mod 100 \<le> 20 then ''th'' else ordinal_suffix d);
          time_str = lower (lstrip0 (strftime_time dt))
      in month_name (month dt) @ '' '' @ digits_of d @ suffix @ '', '' @ digits_of (year dt)
         @ '' at '' @ time_str)"

definition transform_value :: "env \<Rightarrow> pyval \<Rightarrow> string \<Rightarrow> pyval" where
  "transform_value env v transform =
     (if v = PNone then PStr ''''
      else if transform = ''NONE'' then PStr (str v)
      else if transform = ''CONCAT_SPACE'' then
        (case v of PList xs \<Rightarrow> PStr (join '' '' (map str (filter truthy xs)))
                 | _ \<Rightarrow> PStr (str v))
      else if transform = ''UPPER'' then PStr (upper (str v))
      else if transform = ''DATETIME_FORMAT'' then
        (case v of
           PStr s \<Rightarrow> (case fromisoformat env (replace_Z s) of
                        Some dt \<Rightarrow> PStr (replace_sp0 (strftime_long dt))
                      | None \<Rightarrow> PStr (str v))
         | _ \<Rightarrow> PStr (str v))
      else if transform = ''TIMESTAMP_FORMAT'' then PStr (timestamp_format (now_local env))
      else if transform = ''DEVICE_COUNT'' then
        (case v of PList xs \<Rightarrow> PInt (int (length xs)) | _ \<Rightarrow> PInt 0)
      else if transform = ''EXTRACT_ITEM_NUMBER'' then
        (case search_item_number (str v) of Some ds \<Rightarrow> PStr ds | None \<Rightarrow> PStr '''')
      else if transform = ''EXTRACT_NAME'' then PStr (strip (sub_tail (str v)))
      else if transform = ''DEVICE_ARRAY'' then
        (case v of PList xs \<Rightarrow> PList xs | _ \<Rightarrow> PList [])
      else if transform = ''COMM_PATH_LABEL'' then comm_path_label v
      else if transform = ''COMM_PATH_PHRASE'' then comm_path_phrase v
      else PStr (str v))"

section \<open>Device Classifier\<close>

text \<open>
  \<^verbatim>\<open>group_devices\<close>. A device is a property bag. The result is a Python dict, which keeps
  the order of insertion: an association list from category to device list. The body of
  the loop over the devices is \<open>classify\<close>, which decides the list the device is
  appended to (\<open>None\<close>: no list), followed by the append. The inner loop over
  \<^verbatim>\<open>type_rules.items()\<close> is \<open>match_rules\<close>: \<^verbatim>\<open>continue\<close> goes on with the remaining
  rules, \<^verbatim>\<open>break\<close> returns the matched category.
\<close>

type_synonym device = props
type_synonym grouped = "(string \<times> device list) list"

definition categories :: "string list" where
  "categories = [''Perimeter'', ''Motion'', ''Glassbreak'', ''ShockVibration'', ''PanicAlert'',
     ''Tamper'', ''NonRelaySmoke'', ''Sprinkler'', ''Heat'', ''CO'', ''Flood'', ''Sump'',
     ''120vSmoke'', ''Gas'', ''Humidity'', ''IntegratedEnvironmental'', ''Temperature'',
     ''Waterflow'']"

definition type_rules :: "(string \<times> string list) list" where
  "type_rules = [
     (''Perimeter'', [''1'']),
     (''Motion'', [''2'']),
     (''Glassbreak'', [''19'']),
     (''ShockVibration'', [''54'']),
     (''PanicAlert'', [''9'', ''34'', ''104'']),
     (''Tamper'', [''124'']),
     (''NonRelaySmoke'', [''5'', ''53'']),
     (''Heat'', [''8'']),
     (''CO'', [''6'']),
     (''Flood'', [''16''])]"

definition subtype_map :: "string \<rightharpoonup> string" where
  "subtype_map = map_of [
     (''318'', ''Sump''), (''438'', ''Sump''), (''439'', ''Sump''),
     (''197'', ''Sprinkler''), (''198'', ''Sprinkler''), (''322'', ''Sprinkler''),
     (''119'', ''Flood''), (''120'', ''Flood''),
     (''187'', ''Heat''), (''188'', ''Heat''),
     (''108'', ''Glassbreak''), (''109'', ''Glassbreak''),
     (''110'', ''Perimeter''), (''111'', ''Perimeter''), (''194'', ''Perimeter''),
     (''195'', ''Perimeter''), (''222'', ''Perimeter''), (''223'', ''Perimeter''),
     (''221'', ''Perimeter''), (''225'', ''Perimeter''), (''224'', ''Perimeter''),
     (''167'', ''CO''), (''159'', ''CO'')]"

definition equipment_subtype :: "device \<Rightarrow> string" where
  \<comment> \<open>\<^verbatim>\<open>str(device.get('equipment_subtype', '')).strip()\<close>\<close>
  "equipment_subtype d = strip (str (get_or d ''equipment_subtype'' (PStr '''')))"

definition equipment_type :: "device \<Rightarrow> string" where
  \<comment> \<open>\<^verbatim>\<open>str(device.get('alarm_com_equipment_type', '')).strip()\<close>\<close>
  "equipment_type d = strip (str (get_or d ''alarm_com_equipment_type'' (PStr '''')))"

definition sensor_group :: "device \<Rightarrow> string" where
  \<comment> \<open>\<^verbatim>\<open>str(device.get('alarm_com_sensor_group', ''))\<close>\<close>
  "sensor_group d = str (get_or d ''alarm_com_sensor_group'' (PStr ''''))"

definition description_lower :: "device \<Rightarrow> pyerr + string" where
  \<comment> \<open>\<^verbatim>\<open>device.get('alarm_com_description', '').lower()\<close>: only a string has \<^verbatim>\<open>lower\<close>\<close>
  "description_lower d = (case get_or d ''alarm_com_description'' (PStr '''') of
       PStr s \<Rightarrow> Inr (lower s)
     | _ \<Rightarrow> Inl AttributeError)"

fun match_rules :: "(string \<times> string list) list \<Rightarrow> device \<Rightarrow> pyerr + string option" where
  "match_rules [] d = Inr None"
| "match_rules ((category, types) # rules) d =
     (if equipment_type d \<in> set types then
        (if category = ''NonRelaySmoke'' then
           (case description_lower d of
              Inl e \<Rightarrow> Inl e
            | Inr desc \<Rightarrow>
                if str_contains desc ''relay'' \<or> str_contains desc ''120v''
                   \<or> sensor_group d = ''48''
                then match_rules rules d
                else if category = ''Heat'' \<and> sensor_group d = ''48''
                then match_rules rules d
                else Inr (Some category))
         else if category = ''Heat'' \<and> sensor_group d = ''48''
         then match_rules rules d
         else Inr (Some category))
      else match_rules rules d)"

definition classify :: "string list \<Rightarrow> device \<Rightarrow> pyerr + string option" where
  \<comment> \<open>the first argument is the key list of \<^verbatim>\<open>grouped\<close>, for \<^verbatim>\<open>category in grouped\<close>\<close>
  "classify keys d =
     (let by_type =
        (case match_rules type_rules d of
           Inl e \<Rightarrow> Inl e
         | Inr (Some category) \<Rightarrow> Inr (Some category)
         | Inr None \<Rightarrow> if sensor_group d = ''48'' then Inr (Some ''Sprinkler'') else Inr None)
      in case subtype_map (equipment_subtype d) of
           Some category \<Rightarrow> if category \<in> set keys then Inr (Some category) else by_type
         | None \<Rightarrow> by_type)"

fun append_to :: "grouped \<Rightarrow> string \<Rightarrow> device \<Rightarrow> pyerr + grouped" where
  \<comment> \<open>\<^verbatim>\<open>grouped[category].append(device)\<close>\<close>
  "append_to [] c d = Inl KeyError"
| "append_to ((k, l) # g) c d =
     (if k = c then Inr ((k, l @ [d]) # g)
      else case append_to g c d of Inl e \<Rightarrow> Inl e | Inr g' \<Rightarrow> Inr ((k, l) # g'))"

definition group_step :: "grouped \<Rightarrow> device \<Rightarrow> pyerr + grouped" where
  "group_step g d = (case classify (map fst g) d of
       Inl e \<Rightarrow> Inl e
     | Inr None \<Rightarrow> Inr g
     | Inr (Some category) \<Rightarrow> append_to g category d)"

fun group_loop :: "grouped \<Rightarrow> device list \<Rightarrow> pyerr + grouped" where
  "group_loop g [] = Inr g"
| "group_loop g (d # ds) = (case group_step g d of Inl e \<Rightarrow> Inl e | Inr g' \<Rightarrow> group_loop g' ds)"

definition strip_number :: "string \<Rightarrow> string" where
  \<comment> \<open>\<^verbatim>\<open>re.sub(r'^\d+\s+', '', s)\<close>\<close>
  "strip_number s = (let r = dropWhile is_digit s in
     if takeWhile is_digit s \<noteq> [] \<and> takeWhile is_space r \<noteq> [] then dropWhile is_space r
     else s)"

definition sort_key_of :: "device \<Rightarrow> pyerr + string" where
  \<comment> \<open>the key of the sort; \<^verbatim>\<open>re.sub\<close> takes a string only\<close>
  "sort_key_of d = (case get_or d ''alarm_com_description'' (PStr '''') of
       PStr s \<Rightarrow> Inr (lower (strip_number s))
     | _ \<Rightarrow> Inl TypeError)"

fun map_err :: "('a \<Rightarrow> pyerr + 'b) \<Rightarrow> 'a list \<Rightarrow> pyerr + 'b list" where
  "map_err f [] = Inr []"
| "map_err f (x # xs) =
     (case f x of
        Inl e \<Rightarrow> Inl e
      | Inr y \<Rightarrow> (case map_err f xs of Inl e \<Rightarrow> Inl e | Inr ys \<Rightarrow> Inr (y # ys)))"

definition sorted_devices :: "device list \<Rightarrow> pyerr + device list" where
  \<comment> \<open>\<^verbatim>\<open>sorted(l, key=...)\<close>: the keys of all elements first, then a stable sort\<close>
  "sorted_devices l = (case map_err sort_key_of l of
       Inl e \<Rightarrow> Inl e
     | Inr ks \<Rightarrow> Inr (map snd (sort_key fst (zip ks l))))"

fun sort_groups :: "grouped \<Rightarrow> pyerr + grouped" where
  "sort_groups [] = Inr []"
| "sort_groups ((k, l) # g) =
     (case sorted_devices l of
        Inl e \<Rightarrow> Inl e
      | Inr l' \<Rightarrow> (case sort_groups g of Inl e \<Rightarrow> Inl e | Inr g' \<Rightarrow> Inr ((k, l') # g')))"

definition group_devices :: "device list \<Rightarrow> pyerr + grouped" where
  "group_devices devices =
     (case group_loop (map (\<lambda>cat. (cat, [])) categories) devices of
        Inl e \<Rightarrow> Inl e
      | Inr g \<Rightarrow> sort_groups g)"

definition members :: "grouped \<Rightarrow> string \<Rightarrow> device set" where
  \<comment> \<open>the devices listed under a category\<close>
  "members g c = (case map_of g c of Some l \<Rightarrow> set l | None \<Rightarrow> {})"

definition description_ok :: "device \<Rightarrow> bool" where
  \<comment> \<open>the description is absent or a string\<close>
  "description_ok d = (case d ''alarm_com_description'' of
       None \<Rightarrow> True | Some (PStr s) \<Rightarrow> True | Some _ \<Rightarrow> False)"

section \<open>Certificate Number Allocator\<close>

subsection \<open>\<^verbatim>\<open>int(float(x))\<close>\<close>

text \<open>
  \<^verbatim>\<open>float\<close> of a string strips white space, takes digits with single underscores
  between them, a sign, a fraction, an exponent, or one of the words inf, infinity and
  nan, and rounds the decimal value to the nearest binary64 number, ties to even;
  \<^verbatim>\<open>int\<close> then drops the fraction, raising OverflowError on an infinity and ValueError
  on a NaN. The value of a finite literal is kept as the pair of naturals \<open>a / b\<close>.
\<close>

definition float_space :: "char \<Rightarrow> bool" where
  "float_space c = (c \<in> set [CHR 0x09, CHR 0x0A, CHR 0x0B, CHR 0x0C, CHR 0x0D, CHR 0x20,
     CHR 0x85, CHR 0xA0])"

definition float_strip :: "string \<Rightarrow> string" where
  "float_strip s = rev (dropWhile float_space (rev (dropWhile float_space s)))"

fun underscores_ok :: "char \<Rightarrow> string \<Rightarrow> bool" where
  \<comment> \<open>an underscore stands between two digits; the first argument is the character before\<close>
  "underscores_ok prev [] = (prev \<noteq> CHR ''_'')"
| "underscores_ok prev (c # cs) =
     ((if c = CHR ''_'' then is_digit prev else (prev = CHR ''_'' \<longrightarrow> is_digit c))
      \<and> underscores_ok c cs)"

definition split_sign :: "string \<Rightarrow> bool \<times> string" where
  "split_sign s = (case s of
       c # cs \<Rightarrow> if c = CHR ''-'' then (True, cs) else if c = CHR ''+'' then (False, cs)
                 else (False, s)
     | [] \<Rightarrow> (False, s))"

definition nat_of_digits :: "string \<Rightarrow> nat" where
  "nat_of_digits ds = foldl (\<lambda>n c. 10 * n + (of_char c - 48)) 0 ds"

datatype literal = Finite nat nat | Infinity | NaN

definition parse_exponent :: "string \<Rightarrow> int option" where
  \<comment> \<open>what follows the mantissa: nothing, or \<^verbatim>\<open>e\<close>, a sign and digits\<close>
  "parse_exponent r = (case r of
       [] \<Rightarrow> Some 0
     | c # t \<Rightarrow>
         if c = CHR ''e'' \<or> c = CHR ''E'' then
           (let (neg, u) = split_sign t in
            if u \<noteq> [] \<and> (\<forall>x \<in> set u. is_digit x)
            then Some (if neg then - int (nat_of_digits u) else int (nat_of_digits u))
            else None)
         else None)"

definition parse_number :: "string \<Rightarrow> literal option" where
  "parse_number s =
     (let ip = takeWhile is_digit s; r1 = dropWhile is_digit s;
          fp = (case r1 of c # t \<Rightarrow> if c = CHR ''.'' then takeWhile is_digit t else [] | [] \<Rightarrow> []);
          r2 = (case r1 of c # t \<Rightarrow> if c = CHR ''.'' then dropWhile is_digit t else r1 | [] \<Rightarrow> [])
      in if ip = [] \<and> fp = [] then None
         else case parse_exponent r2 of
           None \<Rightarrow> None
         | Some x \<Rightarrow>
             (let m = nat_of_digits (ip @ fp); e = x - int (length fp)
              in if 0 \<le> e then Some (Finite (m * 10 ^ nat e) 1)
                 else Some (Finite m (10 ^ nat (- e)))))"

definition parse_float :: "string \<Rightarrow> (bool \<times> literal) option" where
  \<comment> \<open>the sign and the magnitude; \<open>None\<close> where \<^verbatim>\<open>float\<close> raises ValueError\<close>
  "parse_float s =
     (let t = float_strip s in
      if \<not> underscores_ok (CHR 0x00) t then None
      else let (neg, u) = split_sign (filter (\<lambda>c. c \<noteq> CHR ''_'') t); w = lower u in
        if w = ''inf'' \<or> w = ''infinity'' then Some (neg, Infinity)
        else if w = ''nan'' then Some (neg, NaN)
        else case parse_number u of None \<Rightarrow> None | Some l \<Rightarrow> Some (neg, l))"

definition pow2_le :: "int \<Rightarrow> nat \<Rightarrow> nat \<Rightarrow> bool" where
  \<comment> \<open>\<open>2 ^ k \<le> a / b\<close>\<close>
  "pow2_le k a b = (if 0 \<le> k then b * 2 ^ nat k \<le> a else b \<le> a * 2 ^ nat (- k))"

fun bit_length :: "nat \<Rightarrow> nat" where
  "bit_length n = (if n = 0 then 0 else Suc (bit_length (n div 2)))"

declare bit_length.simps [simp del]

definition binary_exponent :: "nat \<Rightarrow> nat \<Rightarrow> int" where
  \<comment> \<open>the \<open>e\<close> with \<open>2 ^ e \<le> a / b < 2 ^ (e + 1)\<close>, for positive \<open>a\<close> and \<open>b\<close>\<close>
  "binary_exponent a b = (let k = int (bit_length a) - int (bit_length b) in
     if pow2_le k a b then k else k - 1)"

definition round_half_even :: "nat \<Rightarrow> nat \<Rightarrow> nat" where
  \<comment> \<open>\<open>n / d\<close> to the nearest natural, a tie to the even one\<close>
  "round_half_even n d = (let q = n div d; r = n mod d in
     if 2 * r < d then q else if d < 2 * r then q + 1 else if even q then q else q + 1)"

definition trunc_double :: "nat \<Rightarrow> nat \<Rightarrow> nat option" where
  \<comment> \<open>the integer part of the binary64 number nearest to \<open>a / b\<close>; \<open>None\<close> when that
      number is an infinity. Below one half the nearest number is at most one half.\<close>
  "trunc_double a b =
     (if a = 0 then Some 0
      else let e = binary_exponent a b in
        if e < - 1 then Some 0
        else let m = round_half_even (a * 2 ^ nat (52 - e)) (b * 2 ^ nat (e - 52)) in
          if 1023 < e \<or> (e = 1023 \<and> m = 2 ^ 53) then None
          else if 52 \<le> e then Some (m * 2 ^ nat (e - 52))
          else Some (m div 2 ^ nat (52 - e)))"

definition int_of_sign :: "bool \<Rightarrow> nat \<Rightarrow> int" where
  "int_of_sign neg n = (if neg then - int n else int n)"

definition int_float :: "pyval \<Rightarrow> pyerr + int" where
  \<comment> \<open>\<^verbatim>\<open>int(float(x))\<close>\<close>
  "int_float v = (case v of
       PStr s \<Rightarrow>
         (case parse_float s of
            None \<Rightarrow> Inl (ValueError (''could not convert string to float: '' @ repr_str s))
          | Some (neg, NaN) \<Rightarrow> Inl (ValueError ''cannot convert float NaN to integer'')
          | Some (neg, Infinity) \<Rightarrow> Inl OverflowError
          | Some (neg, Finite a b) \<Rightarrow>
              (case trunc_double a b of
                 None \<Rightarrow> Inl OverflowError
               | Some n \<Rightarrow> Inr (int_of_sign neg n)))
     | PInt i \<Rightarrow>
         (case trunc_double (nat \<bar>i\<bar>) 1 of
            None \<Rightarrow> Inl OverflowError
          | Some n \<Rightarrow> Inr (int_of_sign (i < 0) n))
     | PBool b \<Rightarrow> Inr (if b then 1 else 0)
     | _ \<Rightarrow> Inl TypeError)"

definition format_03d :: "int \<Rightarrow> string" where
  \<comment> \<open>\<^verbatim>\<open>f"{n:03d}"\<close>: zeros after the sign up to a width of three characters\<close>
  "format_03d n =
     (if n < 0 then CHR ''-'' # replicate (2 - length (digits_of (nat (- n)))) (CHR ''0'')
                      @ digits_of (nat (- n))
      else replicate (3 - length (digits_of (nat n))) (CHR ''0'') @ digits_of (nat n))"

subsection \<open>The CRM\<close>

text \<open>
  The engine reaches the CRM over HTTP. The CRM is the state \<open>crm\<close>: the stored
  property bag of every object, by object type and id; the contacts associated with an
  agreement; the devices associated with a system; and \<open>fault\<close>, the status with which
  the service refuses a request (for instance 401, 429 or 500), if it does. A read of a
  stored object answers 200 with the properties asked for, a read of an unknown object
  404. A successful update merges the sent properties into the stored bag and answers 200.
\<close>

datatype request =
    GetObject string string
  | PatchObject string string
  | GetContacts string string
  | SearchDevices string string

record crm =
  store :: "string \<times> string \<rightharpoonup> props"
  contacts_of :: "string \<times> string \<Rightarrow> string list"
  devices_of :: "string \<times> string \<Rightarrow> props list"
  fault :: "request \<Rightarrow> nat option"

record response =
  status_code :: nat
  properties :: "props option"

definition http_get :: "crm \<Rightarrow> string \<Rightarrow> string \<Rightarrow> string list \<Rightarrow> response" where
  "http_get c ty oid names =
     (case fault c (GetObject ty oid) of
        Some s \<Rightarrow> \<lparr>status_code = s, properties = None\<rparr>
      | None \<Rightarrow>
          (case store c (ty, oid) of
             None \<Rightarrow> \<lparr>status_code = 404, properties = None\<rparr>
           | Some p \<Rightarrow> \<lparr>status_code = 200, properties = Some (p |` set names)\<rparr>))"

definition http_patch :: "crm \<Rightarrow> string \<Rightarrow> string \<Rightarrow> props \<Rightarrow> nat \<times> crm" where
  "http_patch c ty oid upd =
     (case fault c (PatchObject ty oid) of
        Some s \<Rightarrow> (s, c)
      | None \<Rightarrow>
          (case store c (ty, oid) of
             None \<Rightarrow> (404, c)
           | Some p \<Rightarrow> (200, c\<lparr>store := (store c)((ty, oid) \<mapsto> p ++ upd)\<rparr>)))"

definition http_get_contacts :: "crm \<Rightarrow> string \<Rightarrow> string \<Rightarrow> nat \<times> string list" where
  \<comment> \<open>the status and the \<^verbatim>\<open>toObjectId\<close> of each result\<close>
  "http_get_contacts c ty oid =
     (case fault c (GetContacts ty oid) of
        Some s \<Rightarrow> (s, [])
      | None \<Rightarrow> (200, contacts_of c (ty, oid)))"

definition http_search_devices ::
  "crm \<Rightarrow> string \<Rightarrow> string \<Rightarrow> string list \<Rightarrow> nat \<Rightarrow> nat \<times> props list" where
  \<comment> \<open>the status and the \<^verbatim>\<open>properties\<close> of each result, at most \<open>limit\<close> of them\<close>
  "http_search_devices c ty oid names limit =
     (case fault c (SearchDevices ty oid) of
        Some s \<Rightarrow> (s, [])
      | None \<Rightarrow> (200, map (\<lambda>p. p |` set names) (take limit (devices_of c (ty, oid)))))"

subsection \<open>\<^verbatim>\<open>generate_certificate_number\<close>\<close>

record engine =
  HUBSPOT_TOKEN :: string
  PORTAL_ID :: string
  SYSTEM_TYPE_ID :: string
  AGREEMENT_TYPE_ID :: string

definition DEVICE_TYPE :: string where
  "DEVICE_TYPE = ''2-34947969''"

definition counter_int :: "pyval \<Rightarrow> pyerr + int" where
  \<comment> \<open>\<^verbatim>\<open>try: int(float(current_counter))  except (ValueError, TypeError): 0\<close>\<close>
  "counter_int current_counter = (case int_float current_counter of
       Inr n \<Rightarrow> Inr n
     | Inl (ValueError m) \<Rightarrow> Inr 0
     | Inl TypeError \<Rightarrow> Inr 0
     | Inl e \<Rightarrow> Inl e)"

text \<open>The message of the second exception ends with the text of the response, which the
  model of the CRM does not have.\<close>

definition generate_certificate_number ::
  "engine \<Rightarrow> crm \<Rightarrow> string \<Rightarrow> string \<Rightarrow> (pyerr + string) \<times> crm" where
  "generate_certificate_number eng c site_id system_id =
     (let response = http_get c (SYSTEM_TYPE_ID eng) system_id [''certificate_counter''] in
      if status_code response \<noteq> 200
      then (Inl (Exception (''Failed to get system: '' @ digits_of (status_code response))), c)
      else
        let current_counter =
              get_or (case properties response of None \<Rightarrow> Map.empty | Some p \<Rightarrow> p)
                ''certificate_counter'' (PStr ''0'')
        in case counter_int current_counter of
             Inl e \<Rightarrow> (Inl e, c)
           | Inr n \<Rightarrow>
               (let new_counter = n + 1;
                    cert_number = site_id @ ''-'' @ format_03d new_counter;
                    (status, c') = http_patch c (SYSTEM_TYPE_ID eng) system_id
                                     [''certificate_counter'' \<mapsto> PInt new_counter]
                in if status \<noteq> 200 \<and> status \<noteq> 201
                   then (Inl (Exception ''Failed to update counter: ''), c')
                   else (Inr cert_number, c')))"

section \<open>Data Fetcher and Validator\<close>

record hubspot_data =
  AGREEMENT :: "props option"
  SYSTEM :: "props option"
  SITE :: "props option"
  CUSTOMER :: "props option"
  DEVICES :: "device list option"

definition agreement_props :: "string list" where
  "agreement_props = [
     ''hs_object_id'', ''agreement_plan_name'', ''agreement_plan_effectivedate'',
     ''agreement_plan_supervision'', ''agreement_plan_communication_path_primary'',
     ''agreement_plan_communication_path_secondary'', ''agreement_plan_communication_15746'',
     ''agreement_plan_communication_15747'', ''agreement_plan_gateway_14380'',
     ''agreement_partitions_included'', ''agreement_partitions_additional'',
     ''agreement_partitions_total'',
     ''agreement_plan_intrusion_14385'', ''agreement_plan_intrusion_14386'',
     ''agreement_plan_intrusion_14387'', ''agreement_plan_intrusion_14388'',
     ''agreement_plan_intrusion_14399'', ''agreement_plan_intrusion_15082'',
     ''agreement_plan_fire_14389'', ''agreement_plan_fire_14390'', ''agreement_plan_fire_14391'',
     ''agreement_plan_fire_14401'', ''agreement_plan_environmental_14393'',
     ''agreement_plan_environmental_14394'', ''agreement_plan_environmental_14395'',
     ''agreement_plan_environmental_14396'', ''agreement_plan_environmental_14397'',
     ''agreement_plan_integratedsystems_14398'', ''agreement_plan_integratedsystems_14726'',
     ''agreement_plan_integratedsystems_11571'', ''agreement_plan_integratedsystems_15787'',
     ''agreement_plan_integratedsystems_15272'', ''agreement_plan_integratedsystems_14920'',
     ''agreement_plan_integratedsystems_14631'', ''agreement_plan_response_15252'',
     ''agreement_plan_verify_14372'', ''agreement_plan_trespass_15756'',
     ''agreement_plan_trespass_15753'', ''agreement_plan_trespass_15754'',
     ''agreement_plan_trespass_15753_quantity'', ''agreement_plan_trespass_15754_quantity'',
     ''agreement_plan_trespass_15756_quantity'',
     ''agreement_plan_response_14366'', ''agreement_plan_response_14367'',
     ''agreement_response_guarantee'', ''agreement_plan_response_guarantee'']"

definition system_props :: "string list" where
  "system_props = [''hs_object_id'', ''name'', ''communication_path_1'',
     ''communication_path_2'', ''integrations_gate_fire'']"

definition site_props :: "string list" where
  "site_props = [''name'', ''mas_site_name'', ''address'', ''address2'', ''city'', ''state'',
     ''zip'', ''site_type'']"

definition customer_props :: "string list" where
  "customer_props = [''firstname'', ''lastname'', ''address'', ''city'', ''state'', ''zip'']"

definition device_props :: "string list" where
  "device_props = [
     ''alarm_com_description'', ''zone__'', ''alarm_com_equipment_type'',
     ''alarm_com_central_station_reporting_type'', ''alarm_com_power_source'',
     ''adc_deviceid'', ''alarm_com_partition'', ''installation_date'',
     ''alarm_com_sensor_group'', ''equipment_subtype'']"

definition properties_or_empty :: "response \<Rightarrow> props" where
  \<comment> \<open>\<^verbatim>\<open>response.json().get('properties', {}) if response.status_code == 200 else {}\<close>\<close>
  "properties_or_empty r =
     (if status_code r = 200 then (case properties r of None \<Rightarrow> Map.empty | Some p \<Rightarrow> p)
      else Map.empty)"

definition fetch_hubspot_data ::
  "engine \<Rightarrow> crm \<Rightarrow> string \<Rightarrow> string \<Rightarrow> string \<Rightarrow> hubspot_data" where
  "fetch_hubspot_data eng c agreement_id system_id site_id =
     (let agreement = properties_or_empty
            (http_get c (AGREEMENT_TYPE_ID eng) agreement_id agreement_props);
          system = properties_or_empty (http_get c (SYSTEM_TYPE_ID eng) system_id system_props);
          site = properties_or_empty (http_get c ''companies'' site_id site_props);
          (cstatus, cids) = http_get_contacts c (AGREEMENT_TYPE_ID eng) agreement_id;
          customer =
            (if cstatus = 200 then
               (case cids of
                  customer_id # rest \<Rightarrow>
                    properties_or_empty (http_get c ''contacts'' customer_id customer_props)
                | [] \<Rightarrow> Map.empty)
             else Map.empty);
          (dstatus, results) =
            http_search_devices c DEVICE_TYPE system_id device_props 100;
          devices = (if dstatus = 200 then results else [])
      in \<lparr>AGREEMENT = Some agreement, SYSTEM = Some system, SITE = Some site,
          CUSTOMER = Some customer, DEVICES = Some devices\<rparr>)"

definition bag :: "props option \<Rightarrow> props" where
  \<comment> \<open>\<^verbatim>\<open>data.get(key, {})\<close>\<close>
  "bag p = (case p of None \<Rightarrow> Map.empty | Some m \<Rightarrow> m)"

definition validate_data :: "hubspot_data \<Rightarrow> bool \<times> string list" where
  "validate_data data =
     (let site = bag (SITE data);
          e1 = (if \<not> truthy (get site ''address'') then [''Site address is missing''] else []);
          e2 = (if \<not> truthy (get site ''city'') then [''Site city is missing''] else []);
          e3 = (if \<not> truthy (get site ''state'') then [''Site state is missing''] else []);
          e4 = (if \<not> truthy (get site ''zip'') then [''Site postal code is missing''] else []);
          customer = bag (CUSTOMER data);
          e5 = (if \<not> truthy (get customer ''firstname'') \<and> \<not> truthy (get customer ''lastname'')
                then [''Customer name is missing''] else []);
          e6 = (case DEVICES data of
                  None \<Rightarrow> [''No devices found on system'']
                | Some ds \<Rightarrow> if ds = [] then [''No devices found on system''] else []);
          errors = e1 @ e2 @ e3 @ e4 @ e5 @ e6
      in (errors = [], errors))"

section \<open>Field Assembler\<close>

text \<open>
  \<^verbatim>\<open>assemble_certificate_fields\<close>. The field map is a Python dict, an association list
  in the order of insertion; a value is a scalar or the list of \<^verbatim>\<open>{name, zone}\<close>
  entries of a category.
\<close>

record zone_entry =
  name :: string
  zone :: pyval

datatype fieldval = Val pyval | Zones "zone_entry list"

type_synonym fieldmap = "(string \<times> fieldval) list"

fun dict_set :: "fieldmap \<Rightarrow> string \<Rightarrow> fieldval \<Rightarrow> fieldmap" where
  \<comment> \<open>\<^verbatim>\<open>d[k] = v\<close>: a known key keeps its place, a new one goes to the end\<close>
  "dict_set [] k v = [(k, v)]"
| "dict_set ((k', v') # m) k v = (if k' = k then (k, v) # m else (k', v') # dict_set m k v)"

definition timestamp_str :: "datetime \<Rightarrow> string" where
  "timestamp_str dt =
     (let timestamp_day = day dt;
          timestamp_suffix = (if 11 \<le> timestamp_day \<and> timestamp_day \<le> 13 then ''th''
                              else ordinal_suffix timestamp_day)
      in month_name (month dt) @ '' '' @ digits_of timestamp_day @ timestamp_suffix @ '', ''
         @ digits_of (year dt) @ '' at '' @ lstrip0 (lower (strftime_time dt)))"

definition status_fields :: "string list" where
  "status_fields = [
     ''15746'', ''15747'', ''14380'', ''14385'', ''14386'', ''14387'', ''14388'', ''14399'',
     ''15082'', ''14389'', ''14390'', ''14391'', ''14401'', ''14393'', ''14394'', ''14395'',
     ''14396'', ''14397'', ''14398'', ''14726'', ''15711'', ''15787'', ''15272'', ''14920'',
     ''14631'', ''15252'', ''14372'', ''15756'', ''15753'', ''15754'', ''14366'', ''14367'']"

definition status_prefixes :: "string list" where
  "status_prefixes = [''agreement_plan_communication_'', ''agreement_plan_gateway_'',
     ''agreement_plan_intrusion_'', ''agreement_plan_fire_'',
     ''agreement_plan_environmental_'', ''agreement_plan_integratedsystems_'',
     ''agreement_plan_response_'', ''agreement_plan_verify_'',
     ''agreement_plan_trespass_'']"

fun probe :: "props \<Rightarrow> string list \<Rightarrow> string \<Rightarrow> pyval option" where
  \<comment> \<open>the inner loop over the prefixes: the value under the first name present\<close>
  "probe agreement [] field_num = None"
| "probe agreement (prefix # prefixes) field_num =
     (let prop_name = prefix @ field_num in
      if prop_name \<in> dom agreement then Some (get_or agreement prop_name (PStr ''''))
      else probe agreement prefixes field_num)"

fun add_status :: "props \<Rightarrow> string list \<Rightarrow> fieldmap \<Rightarrow> fieldmap" where
  "add_status agreement [] cert_data = cert_data"
| "add_status agreement (field_num # nums) cert_data =
     add_status agreement nums
       (case probe agreement status_prefixes field_num of
          Some v \<Rightarrow> dict_set cert_data (''AGREEMENT_Status_'' @ field_num) (Val v)
        | None \<Rightarrow> cert_data)"

definition device_entry :: "device \<Rightarrow> pyerr + zone_entry" where
  "device_entry d =
     (case get_or d ''alarm_com_description'' (PStr ''Unknown Device'') of
        PStr desc \<Rightarrow>
          Inr \<lparr>name = strip_number desc,
               zone = or_else (or_else (get d ''adc_deviceid'') (get d ''zone__'')) (PStr '''')\<rparr>
      | _ \<Rightarrow> Inl TypeError)"

fun add_zones :: "grouped \<Rightarrow> fieldmap \<Rightarrow> pyerr + fieldmap" where
  \<comment> \<open>the loop over the categories of \<^verbatim>\<open>grouped_devices\<close>, a dict: each key once\<close>
  "add_zones [] cert_data = Inr cert_data"
| "add_zones ((category, devices) # g) cert_data =
     (case map_err device_entry devices of
        Inl e \<Rightarrow> Inl e
      | Inr device_list \<Rightarrow>
          add_zones g
            (dict_set (dict_set cert_data (''Zones_'' @ category) (Zones device_list))
               (''Count_'' @ category) (Val (PInt (int (length device_list))))))"

definition base_fields ::
  "env \<Rightarrow> hubspot_data \<Rightarrow> string \<Rightarrow> pyval \<Rightarrow> pyval \<Rightarrow> fieldmap" where
  \<comment> \<open>the dict display that \<^verbatim>\<open>cert_data\<close> starts as\<close>
  "base_fields env data cert_number broker_email requestor_name =
     (let site = bag (SITE data); customer = bag (CUSTOMER data);
          agreement = bag (AGREEMENT data); system = bag (SYSTEM data)
      in [
        (''provider_name'', Val (PStr ''Provident Security Corp'')),
        (''provider_address'', Val (PStr ''9123 Bentley Street, Unit 118'')),
        (''provider_city'', Val (PStr ''Vancouver'')),
        (''provider_state'', Val (PStr ''B.C.'')),
        (''provider_zip'', Val (PStr ''V6E 2E9'')),
        (''provider_phone'', Val (PStr ''(604) 254-9734'')),
        (''CERTIFICATE_Number'', Val (PStr cert_number)),
        (''CERTIFICATE_TimeStamp'', Val (PStr (timestamp_str (now_pst env)))),
        (''HSID'', Val (get_or agreement ''hs_object_id'' (PStr ''''))),
        (''HSID_Site'', Val (get_or site ''hs_object_id'' (PStr ''''))),
        (''HSID_System'', Val (get_or system ''hs_object_id'' (PStr ''''))),
        (''SITE_Name'', Val (or_else (get site ''mas_site_name'') (get_or site ''name'' (PStr '''')))),
        (''SITE_Address1'', Val (get_or site ''address'' (PStr ''''))),
        (''SITE_Address2'', Val (get_or site ''address2'' (PStr ''''))),
        (''SITE_City'', Val (get_or site ''city'' (PStr ''''))),
        (''SITE_Province'', Val (get_or site ''state'' (PStr ''''))),
        (''SITE_PostalCode'', Val (transform_value env (get site ''zip'') ''UPPER'')),
        (''SITE_Type'', Val (get_or site ''site_type'' (PStr ''''))),
        (''AGREEMENT_Customer_Name'', Val (transform_value env
            (PList [get customer ''firstname'', get customer ''lastname'']) ''CONCAT_SPACE'')),
        (''AGREEMENT_Customer_Address1'', Val (get_or customer ''address'' (PStr ''''))),
        (''AGREEMENT_Customer_City'', Val (get_or customer ''city'' (PStr ''''))),
        (''AGREEMENT_Customer_Province'', Val (get_or customer ''state'' (PStr ''''))),
        (''AGREEMENT_Customer_PostalCode'', Val (transform_value env (get customer ''zip'') ''UPPER'')),
        (''AGREEMENT_EffectiveDate'', Val (transform_value env
            (get agreement ''agreement_plan_effectivedate'') ''DATETIME_FORMAT'')),
        (''AGREEMENT_Plan_ItemNumber'', Val (transform_value env
            (get agreement ''agreement_plan_name'') ''EXTRACT_ITEM_NUMBER'')),
        (''AGREEMENT_Plan_Supervision'', Val (transform_value env
            (get agreement ''agreement_plan_supervision'') ''EXTRACT_ITEM_NUMBER'')),
        (''AGREEMENT_Response_Guarantee'',
            Val (get_or agreement ''agreement_plan_response_guarantee'' (PStr ''''))),
        (''Path_Primary'', Val (transform_value env
            (get system ''communication_path_1'') ''COMM_PATH_LABEL'')),
        (''Path_Secondary'', Val (transform_value env
            (get system ''communication_path_2'') ''COMM_PATH_LABEL'')),
        (''Path_Phrase'', Val (transform_value env
            (PList [get system ''communication_path_1'', get system ''communication_path_2''])
            ''COMM_PATH_PHRASE'')),
        (''AGREEMENT_Partitions_Included'',
            Val (get_or agreement ''agreement_partitions_included'' (PStr ''''))),
        (''AGREEMENT_Partitions_Additional'',
            Val (get_or agreement ''agreement_partitions_additional'' (PStr ''''))),
        (''AGREEMENT_Partitions_Total'',
            Val (get_or agreement ''agreement_partitions_total'' (PStr ''''))),
        (''Integrations_Gate_Fire'', Val (get_or system ''integrations_gate_fire'' (PStr ''''))),
        (''CERTIFICATE_Recipient_Name'', Val (or_else requestor_name (PStr ''''))),
        (''CERTIFICATE_Recipient_Company'', Val (or_else broker_email (PStr '''')))])"

definition assemble_certificate_fields ::
  "env \<Rightarrow> hubspot_data \<Rightarrow> grouped \<Rightarrow> string \<Rightarrow> pyval \<Rightarrow> pyval \<Rightarrow> pyerr + fieldmap" where
  "assemble_certificate_fields env data grouped_devices cert_number broker_email requestor_name =
     add_zones grouped_devices
       (add_status (bag (AGREEMENT data)) status_fields
          (base_fields env data cert_number broker_email requestor_name))"

section \<open>Certificate Orchestrator\<close>

definition generate_certificate_data ::
  "engine \<Rightarrow> env \<Rightarrow> crm \<Rightarrow> string \<Rightarrow> string \<Rightarrow> string \<Rightarrow> pyval \<Rightarrow> pyval
     \<Rightarrow> (pyerr + fieldmap) \<times> crm" where
  "generate_certificate_data eng env c agreement_id system_id site_id broker_email requestor_name =
     (let data = fetch_hubspot_data eng c agreement_id system_id site_id;
          (is_valid, errors) = validate_data data
      in if \<not> is_valid
         then (Inl (ValueError (''Validation failed: '' @ join '', '' errors)), c)
         else
           case generate_certificate_number eng c site_id system_id of
             (Inl e, c') \<Rightarrow> (Inl e, c')
           | (Inr cert_number, c') \<Rightarrow>
               (case DEVICES data of
                  None \<Rightarrow> (Inl KeyError, c')
                | Some devices \<Rightarrow>
                    (case group_devices devices of
                       Inl e \<Rightarrow> (Inl e, c')
                     | Inr grouped_devices \<Rightarrow>
                         (assemble_certificate_fields env data grouped_devices cert_number
                            broker_email requestor_name, c'))))"

text \<open>An environment for the examples: two clock readings, and an ISO parser that accepts
  nothing (the examples format no date).\<close>

definition env0 :: env where
  "env0 = \<lparr>now_local = \<lparr>year = 2025, month = 6, day = 1, hour = 22, minute = 30, second = 0\<rparr>,
     now_pst = \<lparr>year = 2025, month = 6, day = 1, hour = 14, minute = 30, second = 0\<rparr>,
     fromisoformat = (\<lambda>s. None)\<rparr>"

text \<open>Devices for the examples.\<close>

definition smoke_120v_sprinkler :: device where
  "smoke_120v_sprinkler = [''alarm_com_equipment_type'' \<mapsto> PStr ''5'',
     ''alarm_com_description'' \<mapsto> PStr ''12 Hall 120V Smoke'',
     ''alarm_com_sensor_group'' \<mapsto> PStr ''48'']"

definition smoke_120v :: device where
  "smoke_120v = [''alarm_com_equipment_type'' \<mapsto> PStr ''53'',
     ''alarm_com_description'' \<mapsto> PStr ''12 Hall 120v Smoke'',
     ''alarm_com_sensor_group'' \<mapsto> PStr ''10'']"

definition sump_door :: device where
  "sump_door = [''equipment_subtype'' \<mapsto> PStr ''318'',
     ''alarm_com_equipment_type'' \<mapsto> PStr ''1'',
     ''alarm_com_description'' \<mapsto> PStr ''7 Sump Pump'']"

definition front_door :: device where
  "front_door = [''alarm_com_equipment_type'' \<mapsto> PStr ''1'',
     ''alarm_com_description'' \<mapsto> PStr ''3 Front Door'',
     ''adc_deviceid'' \<mapsto> PStr ''3'']"

definition null_smoke :: device where
  "null_smoke = [''alarm_com_equipment_type'' \<mapsto> PStr ''5'',
     ''alarm_com_description'' \<mapsto> PNone]"

definition null_door :: device where
  "null_door = [''alarm_com_equipment_type'' \<mapsto> PStr ''1'',
     ''alarm_com_description'' \<mapsto> PNone]"

text \<open>A bundle, an engine and a CRM for the examples.\<close>

definition data0 :: hubspot_data where
  "data0 = \<lparr>
     AGREEMENT = Some [''hs_object_id'' \<mapsto> PStr ''555'',
       ''agreement_plan_name'' \<mapsto> PStr ''Platinum [14355]'',
       ''agreement_plan_fire_14389'' \<mapsto> PStr ''Yes''],
     SYSTEM = Some [''hs_object_id'' \<mapsto> PStr ''777'',
       ''communication_path_1'' \<mapsto> PStr ''01'',
       ''communication_path_2'' \<mapsto> PStr ''02''],
     SITE = Some [''name'' \<mapsto> PStr ''Acme Warehouse'', ''address'' \<mapsto> PStr ''1 Main St'',
       ''city'' \<mapsto> PStr ''Vancouver'', ''state'' \<mapsto> PStr ''BC'',
       ''zip'' \<mapsto> PStr ''v6e 2e9''],
     CUSTOMER = Some [''firstname'' \<mapsto> PStr ''Ada'', ''lastname'' \<mapsto> PStr ''Lovelace''],
     DEVICES = Some [front_door]\<rparr>"

definition env1 :: env where
  "env1 = \<lparr>now_local = \<lparr>year = 2025, month = 6, day = 2, hour = 6, minute = 31, second = 9\<rparr>,
     now_pst = \<lparr>year = 2025, month = 6, day = 1, hour = 14, minute = 30, second = 59\<rparr>,
     fromisoformat = (\<lambda>s. None)\<rparr>"

definition eng0 :: engine where
  "eng0 = \<lparr>HUBSPOT_TOKEN = ''token'', PORTAL_ID = ''1'', SYSTEM_TYPE_ID = ''2-100'',
     AGREEMENT_TYPE_ID = ''2-200''\<rparr>"

definition site0 :: props where
  "site0 = [''name'' \<mapsto> PStr ''Acme Warehouse'', ''address'' \<mapsto> PStr ''1 Main St'',
     ''city'' \<mapsto> PStr ''Vancouver'', ''state'' \<mapsto> PStr ''BC'', ''zip'' \<mapsto> PStr ''v6e 2e9'']"

definition example_crm :: "props \<Rightarrow> pyval \<Rightarrow> crm" where
  \<comment> \<open>a CRM with one agreement, system, site, contact and device; the site's properties and
      the system's counter are the arguments\<close>
  "example_crm site counter = \<lparr>
     store = [(''2-200'', ''agr1'') \<mapsto> [''hs_object_id'' \<mapsto> PStr ''agr1''],
              (''2-100'', ''sys1'') \<mapsto> [''name'' \<mapsto> PStr ''Panel'', ''certificate_counter'' \<mapsto> counter],
              (''companies'', ''9999'') \<mapsto> site,
              (''contacts'', ''c1'') \<mapsto> [''firstname'' \<mapsto> PStr ''Ada'', ''lastname'' \<mapsto> PStr ''Lovelace'']],
     contacts_of = (\<lambda>k. if k = (''2-200'', ''agr1'') then [''c1''] else []),
     devices_of = (\<lambda>k. if k = (''2-34947969'', ''sys1'') then [front_door] else []),
     fault = (\<lambda>r. None)\<rparr>"

definition site_nozip :: props where
  "site_nozip = [''name'' \<mapsto> PStr ''Acme Warehouse'', ''address'' \<mapsto> PStr ''1 Main St'',
     ''city'' \<mapsto> PStr ''Vancouver'', ''state'' \<mapsto> PStr ''BC'']"

section \<open>Properties of the Value Transformer\<close>

text \<open>
  C1. The spec expects \<^verbatim>\<open>["01","02"]\<close> to give "Redundant Wireless" and
  \<^verbatim>\<open>["01","04"]\<close> to give "GSM Only" under COMM_PATH_PHRASE. The code looks for the
  words blink, gsm and cellular in the two raw values and never consults the code table
  that COMM_PATH_LABEL uses, so both code pairs give the empty string, while
  COMM_PATH_LABEL names the same codes a BLINK mesh radio and a cellular path.
\<close>

theorem C1_comm_path_phrase_on_codes:
  "transform_value env0 (PList [PStr ''01'', PStr ''02'']) ''COMM_PATH_PHRASE'' = PStr ''''
   \<and> transform_value env0 (PList [PStr ''01'', PStr ''04'']) ''COMM_PATH_PHRASE'' = PStr ''''
   \<and> transform_value env0 (PList [PStr ''04'', PStr ''04'']) ''COMM_PATH_PHRASE'' = PStr ''''
   \<and> transform_value env0 (PStr ''01'') ''COMM_PATH_LABEL'' = PStr ''BLINK mesh radio''
   \<and> transform_value env0 (PStr ''02'') ''COMM_PATH_LABEL'' = PStr ''cellular via Alarmnet''"
  by code_simp

text \<open>
  C6, as the spec states it: an absent value, null or empty, gives the empty string for
  every kind. The empty string is not short-circuited: under DEVICE_COUNT it gives the
  number 0.
\<close>

theorem C6_empty_string_counterexample:
  "transform_value env0 (PStr '''') ''DEVICE_COUNT'' \<noteq> PStr ''''"
  by code_simp

text \<open>
  C6, amended: for every kind, \<^verbatim>\<open>None\<close> gives the empty string, before the kind is
  looked at. An empty string or an empty list is dispatched by kind: DEVICE_COUNT gives
  0 and DEVICE_ARRAY gives the empty list.
\<close>

theorem C6_none_short_circuits:
  "transform_value env PNone kind = PStr ''''
   \<and> transform_value env (PStr '''') ''DEVICE_COUNT'' = PInt 0
   \<and> transform_value env (PList []) ''DEVICE_COUNT'' = PInt 0
   \<and> transform_value env (PStr '''') ''DEVICE_ARRAY'' = PList []
   \<and> transform_value env (PList []) ''DEVICE_ARRAY'' = PList []"
  by (simp add: transform_value_def)

section \<open>Properties of the Device Classifier\<close>

lemma append_to_keys: "append_to g c d = Inr g' \<Longrightarrow> map fst g' = map fst g"
  by (induction g arbitrary: g') (auto split: if_splits sum.splits)

lemma append_to_total: "c \<in> set (map fst g) \<Longrightarrow> \<exists>g'. append_to g c d = Inr g'"
proof (induction g)
  case Nil
  then show ?case by simp
next
  case (Cons p g)
  obtain k l where p: "p = (k, l)" by (cases p)
  show ?case
  proof (cases "k = c")
    case True
    then show ?thesis by (simp add: p)
  next
    case False
    with Cons.prems p have "c \<in> set (map fst g)" by auto
    with Cons.IH obtain g' where "append_to g c d = Inr g'" by blast
    with False show ?thesis by (simp add: p)
  qed
qed

lemma append_to_members:
  "append_to g c d = Inr g' \<Longrightarrow>
   members g' k = (if k = c then insert d (members g c) else members g k)"
  by (induction g arbitrary: g') (auto simp: members_def split: if_splits sum.splits)

lemma append_to_lists:
  "append_to g c d = Inr g' \<Longrightarrow> (k, l) \<in> set g' \<Longrightarrow>
   (k, l) \<in> set g \<or> (\<exists>l0. (k, l0) \<in> set g \<and> l = l0 @ [d])"
proof (induction g arbitrary: g')
  case Nil
  then show ?case by simp
next
  case (Cons p g)
  obtain k' l' where p: "p = (k', l')" by (cases p)
  show ?case
  proof (cases "k' = c")
    case True
    with Cons.prems p show ?thesis by auto
  next
    case False
    with Cons.prems p obtain g2 where g2: "append_to g c d = Inr g2" "g' = (k', l') # g2"
      by (auto split: sum.splits)
    with Cons.prems(2) have "(k, l) = (k', l') \<or> (k, l) \<in> set g2" by auto
    then show ?thesis
    proof
      assume "(k, l) = (k', l')"
      then show ?thesis by (simp add: p)
    next
      assume "(k, l) \<in> set g2"
      from Cons.IH[OF g2(1) this] show ?thesis by auto
    qed
  qed
qed

lemma match_rules_in_rules:
  "match_rules rules d = Inr (Some c) \<Longrightarrow> c \<in> fst ` set rules"
  by (induction rules d rule: match_rules.induct) (auto split: if_splits sum.splits)

lemma type_rules_categories: "fst ` set type_rules \<subseteq> set categories"
  by (simp add: type_rules_def categories_def)

lemma subtype_map_categories: "subtype_map s = Some c \<Longrightarrow> c \<in> set categories"
  by (simp add: subtype_map_def categories_def split: if_splits)

lemma sprinkler_category: "''Sprinkler'' \<in> set categories"
  by (simp add: categories_def)

lemma classify_in_keys:
  assumes "classify categories d = Inr (Some c)"
  shows "c \<in> set categories"
proof (cases "subtype_map (equipment_subtype d)")
  case (Some c')
  with assms subtype_map_categories[OF Some] show ?thesis
    by (simp add: classify_def Let_def)
next
  case None
  show ?thesis
  proof (cases "match_rules type_rules d")
    case (Inl e)
    with assms None show ?thesis by (simp add: classify_def Let_def)
  next
    case (Inr r)
    show ?thesis
    proof (cases r)
      case None2: None
      with assms None Inr sprinkler_category show ?thesis
        by (auto simp: classify_def Let_def split: if_splits)
    next
      case (Some c')
      with assms None Inr have "c' = c" by (simp add: classify_def Let_def)
      with Some Inr match_rules_in_rules[of type_rules d c] type_rules_categories
      show ?thesis by auto
    qed
  qed
qed

lemma group_step_keys: "group_step g d = Inr g' \<Longrightarrow> map fst g' = map fst g"
  by (auto simp: group_step_def append_to_keys split: sum.splits option.splits)

lemma group_loop_keys: "group_loop g ds = Inr g' \<Longrightarrow> map fst g' = map fst g"
  by (induction ds arbitrary: g) (auto simp: group_step_keys split: sum.splits)

lemma group_step_members:
  assumes "map fst g = categories" and "group_step g d = Inr g'"
  shows "members g' k = members g k \<union> (if classify categories d = Inr (Some k) then {d} else {})"
proof (cases "classify categories d")
  case (Inl e)
  with assms show ?thesis by (simp add: group_step_def)
next
  case (Inr r)
  show ?thesis
  proof (cases r)
    case None
    with assms Inr show ?thesis by (simp add: group_step_def)
  next
    case (Some c)
    with assms Inr have "append_to g c d = Inr g'" by (simp add: group_step_def)
    from append_to_members[OF this, of k] Inr Some show ?thesis by auto
  qed
qed

lemma group_loop_members:
  "map fst g = categories \<Longrightarrow> group_loop g ds = Inr g' \<Longrightarrow>
   members g' k = members g k \<union> {d \<in> set ds. classify categories d = Inr (Some k)}"
proof (induction ds arbitrary: g)
  case Nil
  then show ?case by simp
next
  case (Cons d ds)
  from Cons.prems(2) obtain g1 where g1: "group_step g d = Inr g1" "group_loop g1 ds = Inr g'"
    by (auto split: sum.splits)
  have k1: "map fst g1 = categories" using group_step_keys[OF g1(1)] Cons.prems(1) by simp
  from Cons.IH[OF k1 g1(2)] group_step_members[OF Cons.prems(1) g1(1), of k]
  show ?case by auto
qed

lemma group_loop_classified:
  "map fst g = categories \<Longrightarrow> group_loop g ds = Inr g' \<Longrightarrow> d \<in> set ds \<Longrightarrow>
   \<exists>r. classify categories d = Inr r"
proof (induction ds arbitrary: g)
  case Nil
  then show ?case by simp
next
  case (Cons x ds)
  from Cons.prems(2) obtain g1 where g1: "group_step g x = Inr g1" "group_loop g1 ds = Inr g'"
    by (auto split: sum.splits)
  have k1: "map fst g1 = categories" using group_step_keys[OF g1(1)] Cons.prems(1) by simp
  show ?case
  proof (cases "d = x")
    case True
    with g1(1) Cons.prems(1) show ?thesis
      by (cases "classify categories x") (auto simp: group_step_def)
  next
    case False
    with Cons.prems(3) have "d \<in> set ds" by simp
    from Cons.IH[OF k1 g1(2) this] show ?thesis .
  qed
qed

lemma map_err_length: "map_err f xs = Inr ys \<Longrightarrow> length ys = length xs"
  by (induction xs arbitrary: ys) (auto split: sum.splits)

lemma map_err_all: "map_err f xs = Inr ys \<Longrightarrow> x \<in> set xs \<Longrightarrow> \<exists>y. f x = Inr y"
  by (induction xs arbitrary: ys) (auto split: sum.splits)

lemma map_err_total: "(\<And>x. x \<in> set xs \<Longrightarrow> \<exists>y. f x = Inr y) \<Longrightarrow> \<exists>ys. map_err f xs = Inr ys"
proof (induction xs)
  case Nil
  then show ?case by simp
next
  case (Cons x xs)
  then obtain y where y: "f x = Inr y" by auto
  from Cons obtain ys where "map_err f xs = Inr ys" by auto
  with y show ?case by simp
qed

lemma sorted_devices_set: "sorted_devices l = Inr l' \<Longrightarrow> set l' = set l"
proof -
  assume a: "sorted_devices l = Inr l'"
  then obtain ks where ks: "map_err sort_key_of l = Inr ks"
    and l': "l' = map snd (sort_key fst (zip ks l))"
    by (auto simp: sorted_devices_def split: sum.splits)
  have "length ks = length l" using map_err_length[OF ks] .
  then have "set (map snd (zip ks l)) = set l" by simp
  then show ?thesis by (simp add: l')
qed

lemma sort_groups_keys: "sort_groups g = Inr g' \<Longrightarrow> map fst g' = map fst g"
  by (induction g arbitrary: g') (auto split: sum.splits)

lemma sort_groups_members: "sort_groups g = Inr g' \<Longrightarrow> members g' k = members g k"
  by (induction g arbitrary: g') (auto simp: members_def sorted_devices_set split: sum.splits)

lemma sort_groups_keyed:
  "sort_groups g = Inr g' \<Longrightarrow> (k, l) \<in> set g \<Longrightarrow> d \<in> set l \<Longrightarrow> \<exists>s. sort_key_of d = Inr s"
proof (induction g arbitrary: g')
  case Nil
  then show ?case by simp
next
  case (Cons p g)
  obtain k' l' where p: "p = (k', l')" by (cases p)
  from Cons.prems(1) p obtain l2 g2 where s: "sorted_devices l' = Inr l2" "sort_groups g = Inr g2"
    by (auto split: sum.splits)
  from Cons.prems(2) p have "(k, l) = (k', l') \<or> (k, l) \<in> set g" by auto
  then show ?case
  proof
    assume "(k, l) = (k', l')"
    with s(1) Cons.prems(3) show ?thesis
      by (auto simp: sorted_devices_def split: sum.splits dest: map_err_all)
  next
    assume "(k, l) \<in> set g"
    from Cons.IH[OF s(2) this Cons.prems(3)] show ?thesis .
  qed
qed

lemma sort_groups_total:
  "(\<And>k l d. (k, l) \<in> set g \<Longrightarrow> d \<in> set l \<Longrightarrow> \<exists>s. sort_key_of d = Inr s) \<Longrightarrow>
   \<exists>g'. sort_groups g = Inr g'"
proof (induction g)
  case Nil
  then show ?case by simp
next
  case (Cons p g)
  obtain k' l' where p: "p = (k', l')" by (cases p)
  have "\<And>d. d \<in> set l' \<Longrightarrow> \<exists>s. sort_key_of d = Inr s" using Cons.prems p by auto
  from map_err_total[of l' sort_key_of, OF this] obtain ks where "map_err sort_key_of l' = Inr ks"
    by auto
  then obtain l2 where l2: "sorted_devices l' = Inr l2" by (simp add: sorted_devices_def)
  have "\<exists>g'. sort_groups g = Inr g'"
  proof (rule Cons.IH)
    fix k l d
    assume "(k, l) \<in> set g" "d \<in> set l"
    then show "\<exists>s. sort_key_of d = Inr s" using Cons.prems[of k l d] by simp
  qed
  then obtain g2 where "sort_groups g = Inr g2" by auto
  with l2 p show ?case by simp
qed

lemma description_ok_sort_key: "description_ok d \<Longrightarrow> \<exists>s. sort_key_of d = Inr s"
  by (auto simp: description_ok_def sort_key_of_def get_or_def split: option.splits pyval.splits)

lemma description_ok_lower: "description_ok d \<Longrightarrow> \<exists>s. description_lower d = Inr s"
  by (auto simp: description_ok_def description_lower_def get_or_def split: option.splits pyval.splits)

lemma match_rules_total:
  "description_lower d = Inr s \<Longrightarrow> \<exists>r. match_rules rules d = Inr r"
  by (induction rules d rule: match_rules.induct) auto

lemma classify_total: "description_ok d \<Longrightarrow> \<exists>r. classify keys d = Inr r"
proof -
  assume "description_ok d"
  then obtain s where "description_lower d = Inr s" using description_ok_lower by blast
  from match_rules_total[OF this, of type_rules] obtain r where "match_rules type_rules d = Inr r"
    by blast
  then show ?thesis
    by (auto simp: classify_def Let_def split: option.splits)
qed

lemma group_step_total:
  assumes "map fst g = categories" and "description_ok d"
  shows "\<exists>g'. group_step g d = Inr g'"
proof -
  from classify_total[OF assms(2), of categories] obtain r where r: "classify categories d = Inr r"
    by blast
  show ?thesis
  proof (cases r)
    case None
    with r assms(1) show ?thesis by (simp add: group_step_def)
  next
    case (Some c)
    with r have "c \<in> set categories" using classify_in_keys by simp
    with assms(1) have "c \<in> set (map fst g)" by simp
    from append_to_total[OF this, of d] r Some assms(1) show ?thesis
      by (simp add: group_step_def)
  qed
qed

lemma group_loop_total:
  "map fst g = categories \<Longrightarrow> (\<forall>d \<in> set ds. description_ok d) \<Longrightarrow>
   \<exists>g'. group_loop g ds = Inr g'"
proof (induction ds arbitrary: g)
  case Nil
  then show ?case by simp
next
  case (Cons d ds)
  from group_step_total[OF Cons.prems(1), of d] Cons.prems(2)
  obtain g1 where g1: "group_step g d = Inr g1" by auto
  have "map fst g1 = categories" using group_step_keys[OF g1] Cons.prems(1) by simp
  from Cons.IH[OF this] Cons.prems(2) obtain g' where "group_loop g1 ds = Inr g'" by auto
  with g1 show ?case by simp
qed

lemma group_step_lists:
  "group_step g d = Inr g' \<Longrightarrow> (k, l) \<in> set g' \<Longrightarrow> \<exists>l0. (k, l0) \<in> set g \<and> set l \<subseteq> insert d (set l0)"
proof (cases "classify (map fst g) d")
  case (Inl e)
  assume "group_step g d = Inr g'"
  with Inl show ?thesis by (simp add: group_step_def)
next
  case (Inr r)
  assume a: "group_step g d = Inr g'" "(k, l) \<in> set g'"
  show ?thesis
  proof (cases r)
    case None
    with a Inr show ?thesis by (auto simp: group_step_def)
  next
    case (Some c)
    with a Inr have "append_to g c d = Inr g'" by (simp add: group_step_def)
    from append_to_lists[OF this a(2)] show ?thesis by auto
  qed
qed

lemma group_loop_lists:
  "group_loop g ds = Inr g' \<Longrightarrow> (k, l) \<in> set g' \<Longrightarrow>
   \<exists>l0. (k, l0) \<in> set g \<and> set l \<subseteq> set ds \<union> set l0"
proof (induction ds arbitrary: g)
  case Nil
  then show ?case by auto
next
  case (Cons d ds)
  from Cons.prems(1) obtain g1 where g1: "group_step g d = Inr g1" "group_loop g1 ds = Inr g'"
    by (auto split: sum.splits)
  from Cons.IH[OF g1(2) Cons.prems(2)] obtain l1 where l1: "(k, l1) \<in> set g1" "set l \<subseteq> set ds \<union> set l1"
    by blast
  from group_step_lists[OF g1(1) l1(1)] obtain l0 where "(k, l0) \<in> set g" "set l1 \<subseteq> insert d (set l0)"
    by blast
  with l1(2) show ?case by auto
qed

lemma initial_keys: "map fst (map (\<lambda>cat. (cat, [])) categories) = categories"
  by (simp add: comp_def)

lemma group_devices_keys: "group_devices ds = Inr g \<Longrightarrow> map fst g = categories"
  by (auto simp: group_devices_def comp_def split: sum.splits
           dest!: group_loop_keys sort_groups_keys)

lemma group_devices_total:
  assumes "\<forall>d \<in> set ds. description_ok d"
  shows "\<exists>g. group_devices ds = Inr g"
proof -
  let ?g0 = "map (\<lambda>cat. (cat, [])) categories"
  from group_loop_total[OF initial_keys assms] obtain g1 where g1: "group_loop ?g0 ds = Inr g1"
    by blast
  have "\<exists>g'. sort_groups g1 = Inr g'"
  proof (rule sort_groups_total)
    fix k l d
    assume kl: "(k, l) \<in> set g1" and d: "d \<in> set l"
    from group_loop_lists[OF g1 kl] obtain l0 where "(k, l0) \<in> set ?g0" "set l \<subseteq> set ds \<union> set l0"
      by blast
    then have "set l \<subseteq> set ds" by auto
    with d assms have "description_ok d" by auto
    then show "\<exists>s. sort_key_of d = Inr s" by (rule description_ok_sort_key)
  qed
  with g1 show ?thesis by (simp add: group_devices_def)
qed

lemma initial_members: "members (map (\<lambda>cat. (cat, [])) categories) k = {}"
  by (auto simp: members_def map_of_map_restrict restrict_map_def split: option.splits if_splits)

lemma group_devices_members:
  assumes "group_devices ds = Inr g"
  shows "members g k = {d \<in> set ds. classify categories d = Inr (Some k)}"
proof -
  let ?g0 = "map (\<lambda>cat. (cat, [])) categories"
  from assms obtain g1 where g1: "group_loop ?g0 ds = Inr g1" and s: "sort_groups g1 = Inr g"
    by (auto simp: group_devices_def split: sum.splits)
  from group_loop_members[OF initial_keys g1, of k] sort_groups_members[OF s, of k] initial_members[of k]
  show ?thesis by simp
qed

lemma group_devices_classified:
  assumes "group_devices ds = Inr g" and "d \<in> set ds"
  shows "\<exists>r. classify categories d = Inr r"
proof -
  let ?g0 = "map (\<lambda>cat. (cat, [])) categories"
  from assms obtain g1 where g1: "group_loop ?g0 ds = Inr g1"
    by (auto simp: group_devices_def split: sum.splits)
  from group_loop_classified[OF initial_keys g1 assms(2)] show ?thesis .
qed

lemma members_in_list: "d \<in> members g k \<Longrightarrow> \<exists>l. (k, l) \<in> set g \<and> d \<in> set l"
  by (auto simp: members_def split: option.splits dest: map_of_SomeD)

lemma group_devices_sort_keys:
  assumes "group_devices ds = Inr g" and "d \<in> set ds" and "classify categories d = Inr (Some k)"
  shows "\<exists>s. sort_key_of d = Inr s"
proof -
  let ?g0 = "map (\<lambda>cat. (cat, [])) categories"
  from assms(1) obtain g1 where g1: "group_loop ?g0 ds = Inr g1" and s: "sort_groups g1 = Inr g"
    by (auto simp: group_devices_def split: sum.splits)
  from group_loop_members[OF initial_keys g1, of k] assms(2,3) have "d \<in> members g1 k" by simp
  from members_in_list[OF this] obtain l where "(k, l) \<in> set g1" "d \<in> set l" by blast
  from sort_groups_keyed[OF s this] show ?thesis .
qed

lemma categories_distinct: "distinct categories \<and> length categories = 18"
  by (simp add: categories_def)

lemma in_list_members:
  assumes "distinct (map fst g)" and "(k, l) \<in> set g"
  shows "members g k = set l"
  using map_of_is_SomeI[OF assms] by (simp add: members_def)

lemma match_rules_smoke_120v:
  assumes "equipment_type d = ''5'' \<or> equipment_type d = ''53''"
    and "description_lower d = Inr desc" and "str_contains desc ''120v''"
  shows "match_rules type_rules d = Inr None"
  using assms by (auto simp: type_rules_def)

lemma match_rules_smoke_error:
  assumes "equipment_type d = ''5'' \<or> equipment_type d = ''53''"
    and "description_lower d = Inl e"
  shows "match_rules type_rules d = Inl e"
  using assms by (auto simp: type_rules_def)

lemma classify_smoke_120v:
  assumes "equipment_type d = ''5'' \<or> equipment_type d = ''53''"
    and "subtype_map (equipment_subtype d) = None"
    and "d ''alarm_com_description'' = Some (PStr s)"
    and "str_contains (lower s) ''120v''"
  shows "classify keys d = Inr (if sensor_group d = ''48'' then Some ''Sprinkler'' else None)"
proof -
  have "description_lower d = Inr (lower s)"
    using assms(3) by (simp add: description_lower_def get_or_def)
  from match_rules_smoke_120v[OF assms(1) this assms(4)] assms(2)
  show ?thesis by (simp add: classify_def)
qed

lemma classify_subtype:
  assumes "subtype_map (equipment_subtype d) = Some c"
  shows "classify categories d = Inr (Some c)"
  using assms subtype_map_categories[OF assms] by (simp add: classify_def)

lemma equipment_subtype_upd:
  "equipment_subtype (d(''alarm_com_equipment_type'' := t)) = equipment_subtype d"
  by (simp add: equipment_subtype_def get_or_def)

lemma classify_null_description:
  assumes "d ''alarm_com_description'' = Some PNone"
    and "equipment_type d = ''5'' \<or> equipment_type d = ''53''"
  shows "classify categories d = Inl AttributeError \<or> (\<exists>c. classify categories d = Inr (Some c))"
proof (cases "subtype_map (equipment_subtype d)")
  case (Some c)
  from classify_subtype[OF this] show ?thesis by simp
next
  case None
  have "description_lower d = Inl AttributeError"
    using assms(1) by (simp add: description_lower_def get_or_def)
  from match_rules_smoke_error[OF assms(2) this] None show ?thesis
    by (simp add: classify_def)
qed

lemma sort_key_null_description:
  "d ''alarm_com_description'' = Some PNone \<Longrightarrow> sort_key_of d = Inl TypeError"
  by (simp add: sort_key_of_def get_or_def)

lemmas strip_defs = strip_def lstrip_def rstrip_def is_space_def

lemma eval_smoke_120v_sprinkler:
  "equipment_type smoke_120v_sprinkler = ''5''"
  "subtype_map (equipment_subtype smoke_120v_sprinkler) = None"
  "sensor_group smoke_120v_sprinkler = ''48''"
  "str_contains (lower ''12 Hall 120V Smoke'') ''120v''"
  by (simp_all add: smoke_120v_sprinkler_def equipment_type_def equipment_subtype_def
        sensor_group_def get_or_def str_def strip_defs subtype_map_def lower_def lower_char_def
        char_of_eq_iff)

lemma eval_smoke_120v:
  "equipment_type smoke_120v = ''53''"
  "subtype_map (equipment_subtype smoke_120v) = None"
  "sensor_group smoke_120v = ''10''"
  "str_contains (lower ''12 Hall 120v Smoke'') ''120v''"
  by (simp_all add: smoke_120v_def equipment_type_def equipment_subtype_def
        sensor_group_def get_or_def str_def strip_defs subtype_map_def lower_def lower_char_def
        char_of_eq_iff)

lemma group_smoke_120v_sprinkler:
  "group_devices [smoke_120v_sprinkler] = Inr [
     (''Perimeter'', []), (''Motion'', []), (''Glassbreak'', []), (''ShockVibration'', []),
     (''PanicAlert'', []), (''Tamper'', []), (''NonRelaySmoke'', []),
     (''Sprinkler'', [smoke_120v_sprinkler]), (''Heat'', []), (''CO'', []), (''Flood'', []),
     (''Sump'', []), (''120vSmoke'', []), (''Gas'', []), (''Humidity'', []),
     (''IntegratedEnvironmental'', []), (''Temperature'', []), (''Waterflow'', [])]"
proof -
  have c: "\<And>keys. classify keys smoke_120v_sprinkler = Inr (Some ''Sprinkler'')"
    using classify_smoke_120v[of smoke_120v_sprinkler "''12 Hall 120V Smoke''"]
      eval_smoke_120v_sprinkler
    by (simp add: smoke_120v_sprinkler_def)
  have k: "\<exists>s. sort_key_of smoke_120v_sprinkler = Inr s"
    by (simp add: sort_key_of_def smoke_120v_sprinkler_def get_or_def)
  then obtain s where s: "sort_key_of smoke_120v_sprinkler = Inr s" by blast
  show ?thesis
    by (simp add: group_devices_def categories_def group_step_def c sorted_devices_def s)
qed

lemma group_smoke_120v:
  "group_devices [smoke_120v] = Inr (map (\<lambda>cat. (cat, [])) categories)"
proof -
  have c: "\<And>keys. classify keys smoke_120v = Inr None"
    using classify_smoke_120v[of smoke_120v "''12 Hall 120v Smoke''"] eval_smoke_120v
    by (simp add: smoke_120v_def)
  show ?thesis
    by (simp add: group_devices_def categories_def group_step_def c sorted_devices_def)
qed

text \<open>
  C2, as the spec states it: a device of equipment type 5 or 53 whose description contains
  "120v", and whose subtype is not in the override table, is in no category, whatever its
  sensor group. With sensor group 48 the device is refused as NonRelaySmoke, no later rule
  matches, and the sensor-group fallback appends it to Sprinkler.
\<close>

theorem C2_counterexample:
  "group_devices [smoke_120v_sprinkler] = Inr [
     (''Perimeter'', []), (''Motion'', []), (''Glassbreak'', []), (''ShockVibration'', []),
     (''PanicAlert'', []), (''Tamper'', []), (''NonRelaySmoke'', []),
     (''Sprinkler'', [smoke_120v_sprinkler]), (''Heat'', []), (''CO'', []), (''Flood'', []),
     (''Sump'', []), (''120vSmoke'', []), (''Gas'', []), (''Humidity'', []),
     (''IntegratedEnvironmental'', []), (''Temperature'', []), (''Waterflow'', [])]
   \<and> equipment_type smoke_120v_sprinkler = ''5''
   \<and> subtype_map (equipment_subtype smoke_120v_sprinkler) = None
   \<and> description_lower smoke_120v_sprinkler = Inr ''12 hall 120v smoke''"
  using group_smoke_120v_sprinkler eval_smoke_120v_sprinkler
  by (simp add: description_lower_def smoke_120v_sprinkler_def get_or_def lower_def lower_char_def
        char_of_eq_iff)

text \<open>
  C2, amended: such a device is in no category when its sensor group is not 48; when its
  sensor group is 48, it is in Sprinkler and in no other category.
\<close>

theorem C2_smoke_120v_unclassified:
  assumes "d \<in> set ds"
    and "equipment_type d = ''5'' \<or> equipment_type d = ''53''"
    and "subtype_map (equipment_subtype d) = None"
    and "d ''alarm_com_description'' = Some (PStr s)"
    and "str_contains (lower s) ''120v''"
    and "group_devices ds = Inr g"
  shows "map fst g = categories
    \<and> (sensor_group d \<noteq> ''48'' \<longrightarrow> (\<forall>(k, l) \<in> set g. d \<notin> set l))
    \<and> (sensor_group d = ''48'' \<longrightarrow> (\<forall>(k, l) \<in> set g. d \<in> set l \<longleftrightarrow> k = ''Sprinkler''))"
proof -
  have keys: "map fst g = categories" using assms(6) by (rule group_devices_keys)
  then have dist: "distinct (map fst g)" using categories_distinct by simp
  have c: "classify categories d = Inr (if sensor_group d = ''48'' then Some ''Sprinkler'' else None)"
    using assms(2-5) by (rule classify_smoke_120v)
  have m: "\<And>k l. (k, l) \<in> set g \<Longrightarrow> (d \<in> set l) = (classify categories d = Inr (Some k))"
  proof -
    fix k l assume kl: "(k, l) \<in> set g"
    have "set l = {x \<in> set ds. classify categories x = Inr (Some k)}"
      using in_list_members[OF dist kl] group_devices_members[OF assms(6), of k] by simp
    then show "(d \<in> set l) = (classify categories d = Inr (Some k))" using assms(1) by simp
  qed
  show ?thesis using keys m c by auto
qed

theorem C2_smoke_120v_unclassified_witness:
  "smoke_120v \<in> set [smoke_120v]
   \<and> equipment_type smoke_120v = ''53''
   \<and> subtype_map (equipment_subtype smoke_120v) = None
   \<and> smoke_120v ''alarm_com_description'' = Some (PStr ''12 Hall 120v Smoke'')
   \<and> str_contains (lower ''12 Hall 120v Smoke'') ''120v''
   \<and> sensor_group smoke_120v \<noteq> ''48''
   \<and> group_devices [smoke_120v] = Inr (map (\<lambda>cat. (cat, [])) categories)
   \<and> \<not> (\<exists>(k, l) \<in> set (map (\<lambda>cat. (cat, [])) categories). smoke_120v \<in> set l)"
  using C2_smoke_120v_unclassified[of smoke_120v "[smoke_120v]" "''12 Hall 120v Smoke''"
          "map (\<lambda>cat. (cat, [])) categories"]
        eval_smoke_120v group_smoke_120v
  by (simp add: smoke_120v_def)

lemma eval_sump_door:
  "subtype_map (equipment_subtype sump_door) = Some ''Sump''"
  "equipment_type sump_door = ''1''"
  "sort_key_of sump_door = Inr ''sump pump''"
  by (simp_all add: sump_door_def equipment_type_def equipment_subtype_def
        get_or_def str_def strip_defs subtype_map_def sort_key_of_def strip_number_def
        is_digit_def lower_def lower_char_def char_of_eq_iff)

lemma classify_subtype_keys:
  assumes "subtype_map (equipment_subtype d) = Some c" and "c \<in> set keys"
  shows "classify keys d = Inr (Some c)"
  using assms by (simp add: classify_def)

lemma group_sump_door:
  "group_devices [sump_door] = Inr [
     (''Perimeter'', []), (''Motion'', []), (''Glassbreak'', []), (''ShockVibration'', []),
     (''PanicAlert'', []), (''Tamper'', []), (''NonRelaySmoke'', []),
     (''Sprinkler'', []), (''Heat'', []), (''CO'', []), (''Flood'', []),
     (''Sump'', [sump_door]), (''120vSmoke'', []), (''Gas'', []), (''Humidity'', []),
     (''IntegratedEnvironmental'', []), (''Temperature'', []), (''Waterflow'', [])]"
proof -
  have c: "\<And>keys. ''Sump'' \<in> set keys \<Longrightarrow> classify keys sump_door = Inr (Some ''Sump'')"
    using classify_subtype_keys[OF eval_sump_door(1)] .
  show ?thesis
    by (simp add: group_devices_def categories_def group_step_def c sorted_devices_def
          eval_sump_door(3))
qed

text \<open>
  C7. A device whose subtype code is in the override table is listed under the table's
  category and under no other; the decision is the same whatever the equipment type is
  set to, or when it is removed.
\<close>

theorem C7_subtype_wins:
  assumes "d \<in> set ds"
    and "subtype_map (equipment_subtype d) = Some c"
    and "group_devices ds = Inr g"
  shows "(\<forall>(k, l) \<in> set g. d \<in> set l \<longleftrightarrow> k = c)
    \<and> c \<in> set (map fst g)
    \<and> classify categories (d(''alarm_com_equipment_type'' := t)) = Inr (Some c)"
proof -
  have keys: "map fst g = categories" using assms(3) by (rule group_devices_keys)
  then have dist: "distinct (map fst g)" using categories_distinct by simp
  have c: "classify categories d = Inr (Some c)" using assms(2) by (rule classify_subtype)
  have m: "\<And>k l. (k, l) \<in> set g \<Longrightarrow> (d \<in> set l) = (k = c)"
  proof -
    fix k l assume kl: "(k, l) \<in> set g"
    have "set l = {x \<in> set ds. classify categories x = Inr (Some k)}"
      using in_list_members[OF dist kl] group_devices_members[OF assms(3), of k] by simp
    then show "(d \<in> set l) = (k = c)" using assms(1) c by auto
  qed
  have "subtype_map (equipment_subtype (d(''alarm_com_equipment_type'' := t))) = Some c"
    using assms(2) by (simp add: equipment_subtype_upd)
  then have t: "classify categories (d(''alarm_com_equipment_type'' := t)) = Inr (Some c)"
    by (rule classify_subtype)
  have "c \<in> set (map fst g)" using keys subtype_map_categories[OF assms(2)] by simp
  with m t show ?thesis by auto
qed

theorem C7_subtype_wins_witness:
  "sump_door \<in> set [sump_door]
   \<and> subtype_map (equipment_subtype sump_door) = Some ''Sump''
   \<and> equipment_type sump_door = ''1''
   \<and> (\<exists>g. group_devices [sump_door] = Inr g
        \<and> (\<forall>(k, l) \<in> set g. sump_door \<in> set l \<longleftrightarrow> k = ''Sump'')
        \<and> ''Sump'' \<in> set (map fst g))
   \<and> classify categories (sump_door(''alarm_com_equipment_type'' := Some (PStr ''2'')))
       = Inr (Some ''Sump'')"
  using C7_subtype_wins[of sump_door "[sump_door]" "''Sump''" _ "Some (PStr ''2'')",
          OF _ eval_sump_door(1) group_sump_door]
        eval_sump_door group_sump_door
  by simp

lemma eval_front_door:
  "equipment_type front_door = ''1''"
  "subtype_map (equipment_subtype front_door) = None"
  "sort_key_of front_door = Inr ''front door''"
  "description_ok front_door"
  by (simp_all add: front_door_def equipment_type_def equipment_subtype_def
        get_or_def str_def strip_defs subtype_map_def sort_key_of_def strip_number_def
        is_digit_def lower_def lower_char_def char_of_eq_iff description_ok_def)

lemma classify_perimeter:
  assumes "equipment_type d = ''1''" and "subtype_map (equipment_subtype d) = None"
  shows "classify keys d = Inr (Some ''Perimeter'')"
  using assms by (simp add: classify_def type_rules_def)

lemma group_front_door:
  "group_devices [front_door] = Inr [
     (''Perimeter'', [front_door]), (''Motion'', []), (''Glassbreak'', []),
     (''ShockVibration'', []), (''PanicAlert'', []), (''Tamper'', []), (''NonRelaySmoke'', []),
     (''Sprinkler'', []), (''Heat'', []), (''CO'', []), (''Flood'', []),
     (''Sump'', []), (''120vSmoke'', []), (''Gas'', []), (''Humidity'', []),
     (''IntegratedEnvironmental'', []), (''Temperature'', []), (''Waterflow'', [])]"
proof -
  have c: "\<And>keys. classify keys front_door = Inr (Some ''Perimeter'')"
    using classify_perimeter[OF eval_front_door(1,2)] .
  show ?thesis
    by (simp add: group_devices_def categories_def group_step_def c sorted_devices_def
          eval_front_door(3))
qed

lemma eval_null_smoke:
  "equipment_type null_smoke = ''5''"
  "null_smoke ''alarm_com_description'' = Some PNone"
  "subtype_map (equipment_subtype null_smoke) = None"
  by (simp_all add: null_smoke_def equipment_type_def equipment_subtype_def
        get_or_def str_def strip_defs subtype_map_def)

lemma eval_null_door:
  "equipment_type null_door = ''1''"
  "null_door ''alarm_com_description'' = Some PNone"
  "subtype_map (equipment_subtype null_door) = None"
  by (simp_all add: null_door_def equipment_type_def equipment_subtype_def
        get_or_def str_def strip_defs subtype_map_def)

lemma group_null_smoke: "group_devices [null_smoke] = Inl AttributeError"
proof -
  have "description_lower null_smoke = Inl AttributeError"
    by (simp add: description_lower_def null_smoke_def get_or_def)
  from match_rules_smoke_error[OF _ this] eval_null_smoke
  have "\<And>keys. classify keys null_smoke = Inl AttributeError"
    by (simp add: classify_def)
  then show ?thesis by (simp add: group_devices_def group_step_def)
qed

lemma group_null_door: "group_devices [null_door] = Inl TypeError"
proof -
  have c: "\<And>keys. classify keys null_door = Inr (Some ''Perimeter'')"
    using classify_perimeter[OF eval_null_door(1,3)] .
  show ?thesis
    by (simp add: group_devices_def categories_def group_step_def c sorted_devices_def
          sort_key_null_description[of null_door, OF eval_null_door(2)])
qed

text \<open>
  C8. The classifier's result has exactly the 18 category keys, in the fixed order, for
  every device list; the empty list gives all 18 keys with empty lists; and there is a
  result whenever every description is absent or a string.
\<close>

theorem C8_all_categories_present:
  "group_devices [] = Inr (map (\<lambda>cat. (cat, [])) categories)
   \<and> ((\<forall>d \<in> set ds. description_ok d) \<longrightarrow> (\<exists>g. group_devices ds = Inr g))
   \<and> (\<forall>g. group_devices ds = Inr g \<longrightarrow>
        map fst g = [''Perimeter'', ''Motion'', ''Glassbreak'', ''ShockVibration'',
          ''PanicAlert'', ''Tamper'', ''NonRelaySmoke'', ''Sprinkler'', ''Heat'', ''CO'',
          ''Flood'', ''Sump'', ''120vSmoke'', ''Gas'', ''Humidity'',
          ''IntegratedEnvironmental'', ''Temperature'', ''Waterflow'']
        \<and> length g = 18 \<and> distinct (map fst g))"
proof -
  have e: "group_devices [] = Inr (map (\<lambda>cat. (cat, [])) categories)"
    by (simp add: group_devices_def categories_def sorted_devices_def)
  have t: "(\<forall>d \<in> set ds. description_ok d) \<longrightarrow> (\<exists>g. group_devices ds = Inr g)"
    using group_devices_total by blast
  have k: "\<forall>g. group_devices ds = Inr g \<longrightarrow> map fst g = categories \<and> length g = 18
             \<and> distinct (map fst g)"
  proof (intro allI impI)
    fix g assume "group_devices ds = Inr g"
    then have m: "map fst g = categories" by (rule group_devices_keys)
    then have "length g = length categories" by (metis length_map)
    with m categories_distinct show "map fst g = categories \<and> length g = 18 \<and> distinct (map fst g)"
      by simp
  qed
  from e t k show ?thesis by (simp add: categories_def)
qed

theorem C8_all_categories_present_witness:
  "description_ok front_door
   \<and> (\<exists>g. group_devices [front_door] = Inr g \<and>
         map fst g = [''Perimeter'', ''Motion'', ''Glassbreak'', ''ShockVibration'',
          ''PanicAlert'', ''Tamper'', ''NonRelaySmoke'', ''Sprinkler'', ''Heat'', ''CO'',
          ''Flood'', ''Sump'', ''120vSmoke'', ''Gas'', ''Humidity'',
          ''IntegratedEnvironmental'', ''Temperature'', ''Waterflow''])"
  using C8_all_categories_present[of "[front_door]"] eval_front_door(4) by auto

text \<open>
  C9. A device whose description is present and null makes the classifier raise, when the
  device has equipment type 5 or 53 or is placed in a category (and so sorted); the
  classifier returns a result when every description is absent or a string.
\<close>

theorem C9_null_description_raises:
  "(d \<in> set ds \<and> d ''alarm_com_description'' = Some PNone
      \<and> (equipment_type d = ''5'' \<or> equipment_type d = ''53''
          \<or> (\<exists>c. classify categories d = Inr (Some c)))
     \<longrightarrow> (\<exists>e. group_devices ds = Inl e))
   \<and> ((\<forall>x \<in> set ds'. description_ok x) \<longrightarrow> (\<exists>g. group_devices ds' = Inr g))"
proof (intro conjI impI)
  assume a: "d \<in> set ds \<and> d ''alarm_com_description'' = Some PNone
      \<and> (equipment_type d = ''5'' \<or> equipment_type d = ''53''
          \<or> (\<exists>c. classify categories d = Inr (Some c)))"
  then have d: "d \<in> set ds" and n: "d ''alarm_com_description'' = Some PNone" by auto
  have c: "classify categories d = Inl AttributeError \<or> (\<exists>c. classify categories d = Inr (Some c))"
    using a classify_null_description[of d, OF n] by blast
  show "\<exists>e. group_devices ds = Inl e"
  proof (cases "group_devices ds")
    case (Inl e)
    then show ?thesis by blast
  next
    case (Inr g)
    from group_devices_classified[OF Inr d] c obtain k where k: "classify categories d = Inr (Some k)"
      by auto
    from group_devices_sort_keys[OF Inr d k] sort_key_null_description[of d, OF n]
    show ?thesis by auto
  qed
next
  assume "\<forall>x \<in> set ds'. description_ok x"
  then show "\<exists>g. group_devices ds' = Inr g" by (rule group_devices_total)
qed

theorem C9_null_description_raises_witness:
  "null_smoke \<in> set [null_smoke] \<and> null_smoke ''alarm_com_description'' = Some PNone
   \<and> equipment_type null_smoke = ''5''
   \<and> (\<exists>e. group_devices [null_smoke] = Inl e)
   \<and> group_devices [null_smoke] = Inl AttributeError
   \<and> group_devices [null_door] = Inl TypeError
   \<and> description_ok front_door
   \<and> (\<exists>g. group_devices [front_door] = Inr g)"
  using C9_null_description_raises[of null_smoke "[null_smoke]" "[front_door]"]
    eval_null_smoke group_null_smoke group_null_door eval_front_door(4)
  by simp

section \<open>Properties of the Field Assembler\<close>

lemma map_of_dict_set:
  "map_of (dict_set m k v) k' = (if k' = k then Some v else map_of m k')"
  by (induction m) auto

lemma probe_None: "probe a ps f = None \<longleftrightarrow> \<not> (\<exists>p \<in> set ps. p @ f \<in> dom a)"
  by (induction ps) (auto simp: Let_def)

lemma probe_Some: "probe a ps f = Some v \<Longrightarrow> \<exists>p \<in> set ps. p @ f \<in> dom a \<and> a (p @ f) = Some v"
  by (induction ps) (auto simp: Let_def get_or_def split: if_splits)

lemma map_of_add_status:
  "map_of (add_status a fs m) (''AGREEMENT_Status_'' @ f) =
     (if f \<in> set fs then
        (case probe a status_prefixes f of
           Some v \<Rightarrow> Some (Val v)
         | None \<Rightarrow> map_of m (''AGREEMENT_Status_'' @ f))
      else map_of m (''AGREEMENT_Status_'' @ f))"
proof (induction fs arbitrary: m)
  case Nil
  then show ?case by simp
next
  case (Cons x fs)
  show ?case
  proof (cases "probe a status_prefixes x")
    case None
    then show ?thesis using Cons.IH[of m] by (auto split: option.splits)
  next
    case (Some v)
    then show ?thesis
      using Cons.IH[of "dict_set m (''AGREEMENT_Status_'' @ x) (Val v)"]
      by (auto simp: map_of_dict_set split: option.splits)
  qed
qed

lemma map_of_add_zones:
  "add_zones g m = Inr m' \<Longrightarrow> \<forall>c. k \<noteq> ''Zones_'' @ c \<and> k \<noteq> ''Count_'' @ c \<Longrightarrow>
   map_of m' k = map_of m k"
proof (induction g arbitrary: m)
  case Nil
  then show ?case by simp
next
  case (Cons p g)
  obtain c l where p: "p = (c, l)" by (cases p)
  from Cons.prems(1) p obtain es where es: "map_err device_entry l = Inr es"
    and r: "add_zones g (dict_set (dict_set m (''Zones_'' @ c) (Zones es)) (''Count_'' @ c)
              (Val (PInt (int (length es))))) = Inr m'"
    by (auto split: sum.splits)
  from Cons.IH[OF r Cons.prems(2)] Cons.prems(2) show ?case
    by (simp add: map_of_dict_set)
qed

lemma status_key_not_zone:
  "''AGREEMENT_Status_'' @ f \<noteq> ''Zones_'' @ c \<and> ''AGREEMENT_Status_'' @ f \<noteq> ''Count_'' @ c"
  by simp

lemma base_fields_no_status:
  "map_of (base_fields env data cert_number broker_email requestor_name)
     (''AGREEMENT_Status_'' @ f) = None"
  by (simp add: base_fields_def Let_def)

text \<open>
  C10. For each status-flag suffix, the assembled field map has the key
  \<^verbatim>\<open>AGREEMENT_Status_{suffix}\<close> exactly when one of the nine prefixed property names is a
  key of the agreement's property bag; its value is then the value under the first such
  name, and the key is absent otherwise.
\<close>

theorem C10_status_key_iff_probed:
  assumes "f \<in> set status_fields"
    and "assemble_certificate_fields env data grouped_devices cert_number broker_email
           requestor_name = Inr m"
  shows "(''AGREEMENT_Status_'' @ f \<in> fst ` set m
           \<longleftrightarrow> (\<exists>p \<in> set status_prefixes. p @ f \<in> dom (bag (AGREEMENT data))))
    \<and> map_of m (''AGREEMENT_Status_'' @ f)
        = map_option Val (probe (bag (AGREEMENT data)) status_prefixes f)
    \<and> length status_prefixes = 9"
proof -
  let ?k = "''AGREEMENT_Status_'' @ f"
  let ?a = "bag (AGREEMENT data)"
  let ?b = "base_fields env data cert_number broker_email requestor_name"
  have z: "add_zones grouped_devices (add_status ?a status_fields ?b) = Inr m"
    using assms(2) by (simp add: assemble_certificate_fields_def)
  have "map_of m ?k = map_of (add_status ?a status_fields ?b) ?k"
    using map_of_add_zones[OF z, of ?k] status_key_not_zone by blast
  also have "\<dots> = (case probe ?a status_prefixes f of
                        Some v \<Rightarrow> Some (Val v) | None \<Rightarrow> map_of ?b ?k)"
    using assms(1) by (simp only: map_of_add_status if_True)
  also have "\<dots> = map_option Val (probe ?a status_prefixes f)"
    by (simp only: base_fields_no_status) (simp split: option.splits)
  finally have v: "map_of m ?k = map_option Val (probe ?a status_prefixes f)" .
  have "?k \<in> fst ` set m \<longleftrightarrow> map_of m ?k \<noteq> None" by (simp add: map_of_eq_None_iff)
  also have "\<dots> \<longleftrightarrow> probe ?a status_prefixes f \<noteq> None" by (simp only: v) simp
  also have "\<dots> \<longleftrightarrow> (\<exists>p \<in> set status_prefixes. p @ f \<in> dom ?a)" by (simp add: probe_None)
  finally show ?thesis using v by (simp add: status_prefixes_def)
qed

theorem C10_status_key_iff_probed_witness:
  "''14389'' \<in> set status_fields \<and> ''15746'' \<in> set status_fields
   \<and> (\<exists>m. assemble_certificate_fields env0 data0 [] ''9999-005'' PNone PNone = Inr m
        \<and> map_of m ''AGREEMENT_Status_14389'' = Some (Val (PStr ''Yes''))
        \<and> ''AGREEMENT_Status_14389'' \<in> fst ` set m
        \<and> ''AGREEMENT_Status_15746'' \<notin> fst ` set m)"
proof -
  let ?m = "add_status (bag (AGREEMENT data0)) status_fields
              (base_fields env0 data0 ''9999-005'' PNone PNone)"
  have a: "assemble_certificate_fields env0 data0 [] ''9999-005'' PNone PNone = Inr ?m"
    by (simp add: assemble_certificate_fields_def)
  have f1: "''14389'' \<in> set status_fields" and f2: "''15746'' \<in> set status_fields"
    by (simp_all add: status_fields_def)
  have p1: "probe (bag (AGREEMENT data0)) status_prefixes ''14389'' = Some (PStr ''Yes'')"
    by (simp add: data0_def bag_def status_prefixes_def get_or_def)
  have p2: "probe (bag (AGREEMENT data0)) status_prefixes ''15746'' = None"
    by (simp add: data0_def bag_def status_prefixes_def)
  have v1: "map_of ?m (''AGREEMENT_Status_'' @ ''14389'') = Some (Val (PStr ''Yes''))"
    using C10_status_key_iff_probed[OF f1 a] by (simp only: p1 option.map)
  then have k1: "''AGREEMENT_Status_'' @ ''14389'' \<in> fst ` set ?m"
    by (metis map_of_eq_None_iff option.distinct(1))
  have "map_of ?m (''AGREEMENT_Status_'' @ ''15746'') = None"
    using C10_status_key_iff_probed[OF f2 a] by (simp only: p2 option.map)
  then have k2: "''AGREEMENT_Status_'' @ ''15746'' \<notin> fst ` set ?m"
    by (metis map_of_eq_None_iff)
  from v1 k1 k2 a f1 f2 show ?thesis by simp
qed

lemma transform_value_env:
  "fromisoformat e1 = fromisoformat e2 \<Longrightarrow> kind \<noteq> ''TIMESTAMP_FORMAT'' \<Longrightarrow>
   transform_value e1 v kind = transform_value e2 v kind"
  by (cases v) (simp_all add: transform_value_def)

lemma timestamp_str_fields:
  "year a = year b \<Longrightarrow> month a = month b \<Longrightarrow> day a = day b \<Longrightarrow> hour a = hour b \<Longrightarrow>
   minute a = minute b \<Longrightarrow> timestamp_str a = timestamp_str b"
  by (simp add: timestamp_str_def strftime_time_def)

text \<open>
  C5. The field map depends on the library only through the ISO parser and the year,
  month, day, hour and minute of the clock's reading in PST: two calls with the same
  bundle, grouped devices, certificate number, broker email and requestor name, at
  readings that agree in these fields, give the same result. In particular two calls at
  one fixed reading do.
\<close>

theorem C5_assemble_deterministic:
  assumes "fromisoformat e1 = fromisoformat e2"
    and "year (now_pst e1) = year (now_pst e2)" and "month (now_pst e1) = month (now_pst e2)"
    and "day (now_pst e1) = day (now_pst e2)" and "hour (now_pst e1) = hour (now_pst e2)"
    and "minute (now_pst e1) = minute (now_pst e2)"
  shows "assemble_certificate_fields e1 data grouped_devices cert_number broker_email requestor_name
       = assemble_certificate_fields e2 data grouped_devices cert_number broker_email requestor_name"
proof -
  have t: "timestamp_str (now_pst e1) = timestamp_str (now_pst e2)"
    using assms(2-6) by (rule timestamp_str_fields)
  have v: "\<And>v kind. kind \<noteq> ''TIMESTAMP_FORMAT'' \<Longrightarrow>
             transform_value e1 v kind = transform_value e2 v kind"
    using assms(1) by (rule transform_value_env)
  have "base_fields e1 data cert_number broker_email requestor_name
      = base_fields e2 data cert_number broker_email requestor_name"
    by (simp add: base_fields_def Let_def t v)
  then show ?thesis by (simp add: assemble_certificate_fields_def)
qed

theorem C5_assemble_deterministic_witness:
  "fromisoformat env0 = fromisoformat env1
   \<and> year (now_pst env0) = year (now_pst env1) \<and> month (now_pst env0) = month (now_pst env1)
   \<and> day (now_pst env0) = day (now_pst env1) \<and> hour (now_pst env0) = hour (now_pst env1)
   \<and> minute (now_pst env0) = minute (now_pst env1)
   \<and> second (now_pst env0) \<noteq> second (now_pst env1)
   \<and> now_local env0 \<noteq> now_local env1
   \<and> assemble_certificate_fields env0 data0 [(''Perimeter'', [front_door])] ''9999-005''
        (PStr ''broker@example.com'') (PStr ''Ada'')
     = assemble_certificate_fields env1 data0 [(''Perimeter'', [front_door])] ''9999-005''
        (PStr ''broker@example.com'') (PStr ''Ada'')"
  using C5_assemble_deterministic[of env0 env1 data0 "[(''Perimeter'', [front_door])]"
          "''9999-005''" "PStr ''broker@example.com''" "PStr ''Ada''"]
  by (simp add: env0_def env1_def)

section \<open>Properties of the Certificate Number Allocator\<close>

lemma of_char_digit: "d < 10 \<Longrightarrow> (of_char (char_of (48 + d :: nat)) :: nat) = 48 + d"
  by simp

lemma is_digit_char_of: "d < 10 \<Longrightarrow> is_digit (char_of (48 + d :: nat))"
  by (simp add: is_digit_def less_eq_char_def)

lemma digits_of_all_digits: "c \<in> set (digits_of n) \<Longrightarrow> is_digit c"
proof (induction n arbitrary: c rule: digits_of.induct)
  case (1 n)
  show ?case
  proof (cases "n < 10")
    case True
    with "1.prems" show ?thesis by (simp add: digits_of.simps[of n] is_digit_char_of)
  next
    case False
    with "1.prems" have "c \<in> set (digits_of (n div 10)) \<or> c = char_of (48 + n mod 10)"
      by (auto simp: digits_of.simps[of n])
    then show ?thesis
    proof
      assume "c \<in> set (digits_of (n div 10))"
      with "1.IH"[OF False] show ?thesis by simp
    next
      assume "c = char_of (48 + n mod 10)"
      then show ?thesis by (simp add: is_digit_char_of)
    qed
  qed
qed

lemma digits_of_nonempty: "digits_of n \<noteq> []"
  by (simp add: digits_of.simps[of n])

lemma nat_of_digits_snoc:
  "nat_of_digits (ds @ [c]) = 10 * nat_of_digits ds + (of_char c - 48)"
  by (simp add: nat_of_digits_def)

lemma nat_of_digits_digits_of: "nat_of_digits (digits_of n) = n"
proof (induction n rule: digits_of.induct)
  case (1 n)
  show ?case
  proof (cases "n < 10")
    case True
    then show ?thesis by (simp add: digits_of.simps[of n] nat_of_digits_def)
  next
    case False
    with "1.IH" have "nat_of_digits (digits_of (n div 10)) = n div 10" by simp
    with False show ?thesis
      by (simp add: digits_of.simps[of n] nat_of_digits_snoc)
  qed
qed

lemma foldl_zeros:
  "foldl (\<lambda>n c. 10 * n + (of_char c - 48)) 0 (replicate k (CHR ''0'')) = (0::nat)"
  by (induction k) simp_all

lemma nat_of_digits_zeros: "nat_of_digits (replicate k (CHR ''0'') @ ds) = nat_of_digits ds"
  by (simp add: nat_of_digits_def foldl_zeros)

lemma is_digit_zero: "is_digit (CHR ''0'')"
  by (simp add: is_digit_def)

lemma format_03d_width: "3 \<le> length (format_03d n)"
  by (simp add: format_03d_def) arith

lemma format_03d_nonneg:
  assumes "0 \<le> n"
  shows "(\<forall>c \<in> set (format_03d n). is_digit c) \<and> int (nat_of_digits (format_03d n)) = n"
  using assms
  by (auto simp: format_03d_def nat_of_digits_zeros nat_of_digits_digits_of is_digit_zero
        dest: digits_of_all_digits)

lemma format_03d_negative: "n < 0 \<Longrightarrow> hd (format_03d n) = CHR ''-''"
  by (simp add: format_03d_def)

lemmas float_defs = int_float_def parse_float_def float_strip_def float_space_def split_sign_def
  lower_def lower_char_def parse_number_def parse_exponent_def is_digit_def nat_of_digits_def
  trunc_double_def binary_exponent_def pow2_le_def round_half_even_def int_of_sign_def
  bit_length.simps Let_def

lemma counter_int_examples:
  "counter_int (PStr ''4'') = Inr 4"
  "counter_int (PStr ''-5'') = Inr (- 5)"
  "counter_int (PStr ''0'') = Inr 0"
  "counter_int (PStr ''4.7'') = Inr 4"
  "counter_int (PStr ''abc'') = Inr 0"
  "counter_int PNone = Inr 0"
  "counter_int (PStr ''inf'') = Inl OverflowError"
  by (simp_all add: counter_int_def float_defs)

lemma format_03d_examples:
  "format_03d 5 = ''005''"
  "format_03d (- 4) = ''-04''"
proof -
  have d: "digits_of 5 = ''5''" "digits_of 4 = ''4''"
    by (simp_all add: digits_of.simps char_of_eq_iff)
  have r: "replicate 2 (CHR ''0'') = ''00''" by (simp add: numeral_2_eq_2)
  show "format_03d 5 = ''005''" by (simp add: format_03d_def d r)
  show "format_03d (- 4) = ''-04''" by (simp add: format_03d_def d)
qed

lemma generate_certificate_number_ok:
  assumes "fault c (GetObject (SYSTEM_TYPE_ID eng) system_id) = None"
    and "store c (SYSTEM_TYPE_ID eng, system_id) = Some p"
    and "fault c (PatchObject (SYSTEM_TYPE_ID eng) system_id) = None"
    and "counter_int (get_or p ''certificate_counter'' (PStr ''0'')) = Inr n"
  shows "generate_certificate_number eng c site_id system_id =
     (Inr (site_id @ ''-'' @ format_03d (n + 1)),
      c\<lparr>store := (store c)((SYSTEM_TYPE_ID eng, system_id) \<mapsto>
                     p ++ [''certificate_counter'' \<mapsto> PInt (n + 1)])\<rparr>)"
proof -
  have g: "get_or (p |` {''certificate_counter''}) ''certificate_counter'' (PStr ''0'')
         = get_or p ''certificate_counter'' (PStr ''0'')"
    by (simp add: get_or_def)
  show ?thesis
    using assms
    by (simp add: generate_certificate_number_def http_get_def http_patch_def g Let_def)
qed

lemma example_crm_system:
  "fault (example_crm site counter) r = None"
  "store (example_crm site counter) (SYSTEM_TYPE_ID eng0, ''sys1'')
     = Some [''name'' \<mapsto> PStr ''Panel'', ''certificate_counter'' \<mapsto> counter]"
  by (simp_all add: example_crm_def eng0_def)

text \<open>
  C3, as the spec states it: for every counter string that parses as a number the result
  is the site id, a hyphen and the incremented counter zero-padded to at least 3 digits.
  The counter string "-5" parses, the incremented counter is -4, and the format
  \<^verbatim>\<open>03d\<close> counts the sign in the width: the result is "9999--04", with two digits.
\<close>

theorem C3_counterexample:
  "fst (generate_certificate_number eng0 (example_crm site0 (PStr ''-5'')) ''9999'' ''sys1'')
     = Inr ''9999--04''"
proof -
  have n: "counter_int (get_or [''name'' \<mapsto> PStr ''Panel'', ''certificate_counter'' \<mapsto> PStr ''-5'']
             ''certificate_counter'' (PStr ''0'')) = Inr (- 5)"
    by (simp add: get_or_def counter_int_examples)
  from generate_certificate_number_ok[where c = "example_crm site0 (PStr ''-5'')" and eng = eng0
         and system_id = "''sys1''" and site_id = "''9999''", OF example_crm_system(1)
         example_crm_system(2) example_crm_system(1) n]
  show ?thesis by (simp add: format_03d_examples)
qed

text \<open>
  C3, amended: when the read and the update succeed and \<^verbatim>\<open>int(float(counter))\<close> gives an
  integer n (0 when the property is absent, or when the conversion raises ValueError or
  TypeError), the allocator returns the site id, a hyphen and n + 1 in the format
  \<^verbatim>\<open>03d\<close> (at least 3 characters, which are digits spelling n + 1 when n + 1 is not
  negative), and stores n + 1 under the same system's counter property, leaving the
  system's other properties as they were. With the counter "4" and the site "9999" this
  is "9999-005" and the stored 5.
\<close>

theorem C3_allocator:
  assumes "fault c (GetObject (SYSTEM_TYPE_ID eng) system_id) = None"
    and "store c (SYSTEM_TYPE_ID eng, system_id) = Some p"
    and "fault c (PatchObject (SYSTEM_TYPE_ID eng) system_id) = None"
    and "counter_int (get_or p ''certificate_counter'' (PStr ''0'')) = Inr n"
  shows "generate_certificate_number eng c site_id system_id =
       (Inr (site_id @ ''-'' @ format_03d (n + 1)),
        c\<lparr>store := (store c)((SYSTEM_TYPE_ID eng, system_id) \<mapsto>
                       p(''certificate_counter'' \<mapsto> PInt (n + 1)))\<rparr>)
    \<and> 3 \<le> length (format_03d (n + 1))
    \<and> (0 \<le> n + 1 \<longrightarrow> (\<forall>ch \<in> set (format_03d (n + 1)). is_digit ch)
                      \<and> int (nat_of_digits (format_03d (n + 1))) = n + 1)
    \<and> (p ''certificate_counter'' = None \<longrightarrow> n = 0)
    \<and> (\<forall>v k. p ''certificate_counter'' = Some v \<and> int_float v = Inr k \<longrightarrow> n = k)
    \<and> (\<forall>v. p ''certificate_counter'' = Some v
           \<and> ((\<exists>m. int_float v = Inl (ValueError m)) \<or> int_float v = Inl TypeError) \<longrightarrow> n = 0)"
proof -
  have r: "generate_certificate_number eng c site_id system_id =
       (Inr (site_id @ ''-'' @ format_03d (n + 1)),
        c\<lparr>store := (store c)((SYSTEM_TYPE_ID eng, system_id) \<mapsto>
                       p(''certificate_counter'' \<mapsto> PInt (n + 1)))\<rparr>)"
    using generate_certificate_number_ok[OF assms, of site_id] by simp
  have f: "0 \<le> n + 1 \<longrightarrow> (\<forall>ch \<in> set (format_03d (n + 1)). is_digit ch)
                      \<and> int (nat_of_digits (format_03d (n + 1))) = n + 1"
    using format_03d_nonneg[of "n + 1"] by blast
  have d: "p ''certificate_counter'' = None \<longrightarrow> n = 0"
    using assms(4) by (auto simp: get_or_def counter_int_examples)
  have k: "\<forall>v k. p ''certificate_counter'' = Some v \<and> int_float v = Inr k \<longrightarrow> n = k"
    using assms(4) by (auto simp: get_or_def counter_int_def)
  have e: "\<forall>v. p ''certificate_counter'' = Some v
           \<and> ((\<exists>m. int_float v = Inl (ValueError m)) \<or> int_float v = Inl TypeError) \<longrightarrow> n = 0"
    using assms(4) by (auto simp: get_or_def counter_int_def)
  from r f d k e format_03d_width[of "n + 1"] show ?thesis by blast
qed

theorem C3_allocator_witness:
  "fault (example_crm site0 (PStr ''4'')) (GetObject (SYSTEM_TYPE_ID eng0) ''sys1'') = None
   \<and> store (example_crm site0 (PStr ''4'')) (SYSTEM_TYPE_ID eng0, ''sys1'')
       = Some [''name'' \<mapsto> PStr ''Panel'', ''certificate_counter'' \<mapsto> PStr ''4'']
   \<and> fault (example_crm site0 (PStr ''4'')) (PatchObject (SYSTEM_TYPE_ID eng0) ''sys1'') = None
   \<and> counter_int (PStr ''4'') = Inr 4
   \<and> fst (generate_certificate_number eng0 (example_crm site0 (PStr ''4'')) ''9999'' ''sys1'')
       = Inr ''9999-005''
   \<and> store (snd (generate_certificate_number eng0 (example_crm site0 (PStr ''4'')) ''9999'' ''sys1''))
        (SYSTEM_TYPE_ID eng0, ''sys1'')
       = Some [''name'' \<mapsto> PStr ''Panel'', ''certificate_counter'' \<mapsto> PInt 5]"
proof -
  have n: "counter_int (get_or [''name'' \<mapsto> PStr ''Panel'', ''certificate_counter'' \<mapsto> PStr ''4'']
             ''certificate_counter'' (PStr ''0'')) = Inr 4"
    by (simp add: get_or_def counter_int_examples)
  from C3_allocator[where c = "example_crm site0 (PStr ''4'')" and eng = eng0
         and system_id = "''sys1''" and site_id = "''9999''", OF example_crm_system(1)
         example_crm_system(2) example_crm_system(1) n]
  show ?thesis
    by (simp add: format_03d_examples example_crm_system counter_int_examples)
qed

section \<open>Properties of the Validator and the Orchestrator\<close>

lemma validate_data_errors:
  "snd (validate_data data) =
     (if \<not> truthy (get (bag (SITE data)) ''address'') then [''Site address is missing''] else [])
     @ (if \<not> truthy (get (bag (SITE data)) ''city'') then [''Site city is missing''] else [])
     @ (if \<not> truthy (get (bag (SITE data)) ''state'') then [''Site state is missing''] else [])
     @ (if \<not> truthy (get (bag (SITE data)) ''zip'') then [''Site postal code is missing''] else [])
     @ (if \<not> truthy (get (bag (CUSTOMER data)) ''firstname'')
           \<and> \<not> truthy (get (bag (CUSTOMER data)) ''lastname'')
        then [''Customer name is missing''] else [])
     @ (if DEVICES data = None \<or> DEVICES data = Some []
        then [''No devices found on system''] else [])"
  by (simp add: validate_data_def Let_def split: option.splits)

lemma validate_data_ok: "fst (validate_data data) \<longleftrightarrow> snd (validate_data data) = []"
  by (simp add: validate_data_def Let_def)

lemma generate_certificate_data_invalid:
  assumes "\<not> fst (validate_data (fetch_hubspot_data eng c agreement_id system_id site_id))"
  shows "generate_certificate_data eng env c agreement_id system_id site_id broker_email
           requestor_name =
     (Inl (ValueError (''Validation failed: '' @ join '', ''
        (snd (validate_data (fetch_hubspot_data eng c agreement_id system_id site_id))))), c)"
proof -
  let ?d = "fetch_hubspot_data eng c agreement_id system_id site_id"
  obtain ok errs where v: "validate_data ?d = (ok, errs)" by (cases "validate_data ?d")
  with assms have "\<not> ok" by simp
  with v show ?thesis by (simp add: generate_certificate_data_def Let_def)
qed

lemma fetch_example_site:
  "SITE (fetch_hubspot_data eng0 (example_crm site counter) ''agr1'' ''sys1'' ''9999'')
     = Some (site |` set site_props)"
  "CUSTOMER (fetch_hubspot_data eng0 (example_crm site counter) ''agr1'' ''sys1'' ''9999'')
     = Some ([''firstname'' \<mapsto> PStr ''Ada'', ''lastname'' \<mapsto> PStr ''Lovelace'']
              |` set customer_props)"
  "DEVICES (fetch_hubspot_data eng0 (example_crm site counter) ''agr1'' ''sys1'' ''9999'')
     = Some [front_door |` set device_props]"
  by (simp_all add: fetch_hubspot_data_def example_crm_def eng0_def http_get_def
        http_get_contacts_def http_search_devices_def properties_or_empty_def DEVICE_TYPE_def
        Let_def)

lemma validate_example_nozip:
  "validate_data (fetch_hubspot_data eng0 (example_crm site_nozip counter) ''agr1'' ''sys1'' ''9999'')
     = (False, [''Site postal code is missing''])"
proof -
  let ?d = "fetch_hubspot_data eng0 (example_crm site_nozip counter) ''agr1'' ''sys1'' ''9999''"
  have "snd (validate_data ?d) = [''Site postal code is missing'']"
    unfolding validate_data_errors fetch_example_site
    by (simp add: bag_def get_def site_nozip_def site_props_def customer_props_def
          restrict_map_def)
  then show ?thesis using validate_data_ok[of ?d] by (cases "validate_data ?d") simp
qed

lemma generate_certificate_data_valid:
  assumes "fst (validate_data (fetch_hubspot_data eng c agreement_id system_id site_id))"
  shows "snd (generate_certificate_data eng env c agreement_id system_id site_id broker_email
           requestor_name) = snd (generate_certificate_number eng c site_id system_id)"
proof -
  let ?d = "fetch_hubspot_data eng c agreement_id system_id site_id"
  obtain ok errs where v: "validate_data ?d = (ok, errs)" by (cases "validate_data ?d")
  with assms have ok: "ok" by simp
  obtain r c' where g: "generate_certificate_number eng c site_id system_id = (r, c')"
    by (cases "generate_certificate_number eng c site_id system_id")
  show ?thesis using v ok g
    by (simp add: generate_certificate_data_def Let_def split: sum.splits option.splits)
qed

lemma validate_example_ok:
  "fst (validate_data (fetch_hubspot_data eng0 (example_crm site0 counter) ''agr1'' ''sys1'' ''9999''))"
proof -
  let ?d = "fetch_hubspot_data eng0 (example_crm site0 counter) ''agr1'' ''sys1'' ''9999''"
  have "snd (validate_data ?d) = []"
    unfolding validate_data_errors fetch_example_site
    by (simp add: bag_def get_def site0_def site_props_def customer_props_def
          restrict_map_def)
  then show ?thesis using validate_data_ok[of ?d] by simp
qed

text \<open>
  C4. A bundle whose site has no postal code fails validation, with the postal-code
  message among the errors; the error list holds the message of each violated check and
  of no other; and when the fetched bundle fails validation, the orchestrator raises a
  ValueError carrying all the messages and leaves the CRM, and so the counter, as it was.
  When validation passes, the CRM after the call is the one the allocator leaves.
\<close>

theorem C4_validation_fails_before_allocation:
  "(\<not> truthy (get (bag (SITE data)) ''zip'') \<longrightarrow>
      \<not> fst (validate_data data) \<and> ''Site postal code is missing'' \<in> set (snd (validate_data data)))
   \<and> (fst (validate_data data) \<longleftrightarrow> snd (validate_data data) = [])
   \<and> (''Site address is missing'' \<in> set (snd (validate_data data))
        \<longleftrightarrow> \<not> truthy (get (bag (SITE data)) ''address''))
   \<and> (''Site city is missing'' \<in> set (snd (validate_data data))
        \<longleftrightarrow> \<not> truthy (get (bag (SITE data)) ''city''))
   \<and> (''Site state is missing'' \<in> set (snd (validate_data data))
        \<longleftrightarrow> \<not> truthy (get (bag (SITE data)) ''state''))
   \<and> (''Site postal code is missing'' \<in> set (snd (validate_data data))
        \<longleftrightarrow> \<not> truthy (get (bag (SITE data)) ''zip''))
   \<and> (''Customer name is missing'' \<in> set (snd (validate_data data))
        \<longleftrightarrow> \<not> truthy (get (bag (CUSTOMER data)) ''firstname'')
            \<and> \<not> truthy (get (bag (CUSTOMER data)) ''lastname''))
   \<and> (''No devices found on system'' \<in> set (snd (validate_data data))
        \<longleftrightarrow> DEVICES data = None \<or> DEVICES data = Some [])
   \<and> (\<not> fst (validate_data (fetch_hubspot_data eng c agreement_id system_id site_id)) \<longrightarrow>
        generate_certificate_data eng env c agreement_id system_id site_id broker_email
          requestor_name =
        (Inl (ValueError (''Validation failed: '' @ join '', ''
           (snd (validate_data (fetch_hubspot_data eng c agreement_id system_id site_id))))), c))
   \<and> (fst (validate_data (fetch_hubspot_data eng c agreement_id system_id site_id)) \<longrightarrow>
        snd (generate_certificate_data eng env c agreement_id system_id site_id broker_email
          requestor_name) = snd (generate_certificate_number eng c site_id system_id))"
proof -
  have z: "\<not> truthy (get (bag (SITE data)) ''zip'') \<longrightarrow>
      \<not> fst (validate_data data) \<and> ''Site postal code is missing'' \<in> set (snd (validate_data data))"
    by (simp add: validate_data_ok validate_data_errors)
  have m: "(''Site address is missing'' \<in> set (snd (validate_data data))
        \<longleftrightarrow> \<not> truthy (get (bag (SITE data)) ''address''))"
    "(''Site city is missing'' \<in> set (snd (validate_data data))
        \<longleftrightarrow> \<not> truthy (get (bag (SITE data)) ''city''))"
    "(''Site state is missing'' \<in> set (snd (validate_data data))
        \<longleftrightarrow> \<not> truthy (get (bag (SITE data)) ''state''))"
    "(''Site postal code is missing'' \<in> set (snd (validate_data data))
        \<longleftrightarrow> \<not> truthy (get (bag (SITE data)) ''zip''))"
    "(''Customer name is missing'' \<in> set (snd (validate_data data))
        \<longleftrightarrow> \<not> truthy (get (bag (CUSTOMER data)) ''firstname'')
            \<and> \<not> truthy (get (bag (CUSTOMER data)) ''lastname''))"
    "(''No devices found on system'' \<in> set (snd (validate_data data))
        \<longleftrightarrow> DEVICES data = None \<or> DEVICES data = Some [])"
    by (simp_all add: validate_data_errors)
  from z m validate_data_ok[of data]
    generate_certificate_data_invalid[of eng c agreement_id system_id site_id env broker_email
      requestor_name]
    generate_certificate_data_valid[of eng c agreement_id system_id site_id env broker_email
      requestor_name]
  show ?thesis by blast
qed

theorem C4_validation_fails_before_allocation_witness:
  "\<not> truthy (get (bag (SITE (fetch_hubspot_data eng0 (example_crm site_nozip (PStr ''4''))
        ''agr1'' ''sys1'' ''9999''))) ''zip'')
   \<and> validate_data (fetch_hubspot_data eng0 (example_crm site_nozip (PStr ''4''))
        ''agr1'' ''sys1'' ''9999'') = (False, [''Site postal code is missing''])
   \<and> generate_certificate_data eng0 env0 (example_crm site_nozip (PStr ''4''))
        ''agr1'' ''sys1'' ''9999'' PNone PNone
      = (Inl (ValueError ''Validation failed: Site postal code is missing''),
         example_crm site_nozip (PStr ''4''))
   \<and> store (example_crm site_nozip (PStr ''4'')) (SYSTEM_TYPE_ID eng0, ''sys1'')
      = Some [''name'' \<mapsto> PStr ''Panel'', ''certificate_counter'' \<mapsto> PStr ''4'']
   \<and> fst (validate_data (fetch_hubspot_data eng0 (example_crm site0 (PStr ''4''))
        ''agr1'' ''sys1'' ''9999''))
   \<and> store (snd (generate_certificate_data eng0 env0 (example_crm site0 (PStr ''4''))
        ''agr1'' ''sys1'' ''9999'' PNone PNone)) (SYSTEM_TYPE_ID eng0, ''sys1'')
      = Some [''name'' \<mapsto> PStr ''Panel'', ''certificate_counter'' \<mapsto> PInt 5]"
proof -
  let ?c = "example_crm site_nozip (PStr ''4'')"
  let ?d = "fetch_hubspot_data eng0 ?c ''agr1'' ''sys1'' ''9999''"
  have v: "validate_data ?d = (False, [''Site postal code is missing''])"
    by (rule validate_example_nozip)
  have zip: "\<not> truthy (get (bag (SITE ?d)) ''zip'')"
    unfolding fetch_example_site
    by (simp add: bag_def get_def site_nozip_def site_props_def restrict_map_def)
  have n: "counter_int (get_or [''name'' \<mapsto> PStr ''Panel'', ''certificate_counter'' \<mapsto> PStr ''4'']
             ''certificate_counter'' (PStr ''0'')) = Inr 4"
    by (simp add: get_or_def counter_int_examples)
  have a: "snd (generate_certificate_number eng0 (example_crm site0 (PStr ''4'')) ''9999'' ''sys1'')
       = (example_crm site0 (PStr ''4''))\<lparr>store := (store (example_crm site0 (PStr ''4'')))
            ((SYSTEM_TYPE_ID eng0, ''sys1'') \<mapsto>
               [''name'' \<mapsto> PStr ''Panel'', ''certificate_counter'' \<mapsto> PStr ''4'']
               ++ [''certificate_counter'' \<mapsto> PInt (4 + 1)])\<rparr>"
    using generate_certificate_number_ok[where c = "example_crm site0 (PStr ''4'')" and eng = eng0
         and system_id = "''sys1''" and site_id = "''9999''", OF example_crm_system(1)
         example_crm_system(2) example_crm_system(1) n]
    by simp
  from C4_validation_fails_before_allocation[of ?d eng0 ?c "''agr1''" "''sys1''" "''9999''"
         env0 PNone PNone]
    C4_validation_fails_before_allocation[of ?d eng0 "example_crm site0 (PStr ''4'')" "''agr1''"
         "''sys1''" "''9999''" env0 PNone PNone]
    v zip validate_example_ok[of "PStr ''4''"] a example_crm_system(2)[of site_nozip "PStr ''4''"]
  show ?thesis by simp
qed

end
